theory Spec2Isabelle
  imports Complex_Main
begin

section \<open>JavaScript values used by the timer\<close>

text \<open>
  The timer of \<^verbatim>\<open>script.js\<close> (and of its second copy, the file whose functions test
  every element before they use it; its definitions carry the suffix \<^verbatim>\<open>_g\<close>) works with
  integral numbers and, after \<^verbatim>\<open>parseInt\<close> of a malformed string, with \<^verbatim>\<open>NaN\<close>.
  A number is therefore an integer or \<^verbatim>\<open>NaN\<close>. The integers are unbounded here; they
  agree with the doubles of the source below \<open>2 ^ 53\<close>, far above any value of
  \<^verbatim>\<open>Date.now()\<close>.
\<close>

datatype jsnum = Num int | NaN

text \<open>\<^verbatim>\<open>n.toString()\<close> of an integral number: decimal digits, a minus sign if negative.\<close>

definition digit :: "nat \<Rightarrow> char" where
  "digit d = ''0123456789'' ! d"

fun dec :: "nat \<Rightarrow> string" where
  "dec n = (if n < 10 then [digit n] else dec (n div 10) @ [digit (n mod 10)])"

declare dec.simps [simp del]

fun toString :: "jsnum \<Rightarrow> string" where
  "toString NaN = ''NaN''"
| "toString (Num n) = (if n < 0 then CHR ''-'' # dec (nat (- n)) else dec (nat n))"

text \<open>\<^verbatim>\<open>b.toString()\<close> of a boolean.\<close>

definition boolToString :: "bool \<Rightarrow> string" where
  "boolToString b = (if b then ''true'' else ''false'')"

text \<open>\<^verbatim>\<open>s.padStart(2, '0')\<close>: zeros in front until the string has two characters.\<close>

definition padStart2 :: "string \<Rightarrow> string" where
  "padStart2 s = replicate (2 - length s) CHR ''0'' @ s"

text \<open>
  \<^verbatim>\<open>parseInt(s, 10)\<close>: leading white space is skipped, one sign is read, then the
  longest run of decimal digits; no digit gives \<^verbatim>\<open>NaN\<close>, and whatever follows the digits
  is ignored. (White space is the ASCII part of what ECMAScript skips.)
\<close>

definition isWhite :: "char \<Rightarrow> bool" where
  "isWhite c = (c \<in> set [CHR '' '', CHR 0x09, CHR 0x0A, CHR 0x0B, CHR 0x0C, CHR 0x0D])"

definition isDigit :: "char \<Rightarrow> bool" where
  "isDigit c = (c \<in> set ''0123456789'')"

definition digitValue :: "char \<Rightarrow> int" where
  "digitValue c = int (of_char c) - 48"

definition parseDigits :: "string \<Rightarrow> int" where
  "parseDigits ds = foldl (\<lambda>a c. 10 * a + digitValue c) 0 ds"

definition parseInt :: "string \<Rightarrow> jsnum" where
  "parseInt s =
     (let t = dropWhile isWhite s;
          neg = (t \<noteq> [] \<and> hd t = CHR ''-'');
          u = (if t \<noteq> [] \<and> (hd t = CHR ''-'' \<or> hd t = CHR ''+'') then tl t else t);
          ds = takeWhile isDigit u
      in if ds = [] then NaN
         else Num (if neg then - parseDigits ds else parseDigits ds))"

text \<open>
  A string read from the store is \<^verbatim>\<open>null\<close> (no such key) or a string; in a
  condition it counts as true when it is a string that is not empty.
\<close>

definition truthy :: "string option \<Rightarrow> bool" where
  "truthy v = (case v of None \<Rightarrow> False | Some t \<Rightarrow> t \<noteq> [])"

section \<open>Formatting the remaining time\<close>

text \<open>
  \<^verbatim>\<open>msToMMSS(ms)\<close>. \<^verbatim>\<open>Math.max(0, NaN)\<close> is \<^verbatim>\<open>NaN\<close> and stays
  \<^verbatim>\<open>NaN\<close> through \<^verbatim>\<open>Math.ceil\<close>, the division and the remainder, so both parts
  print as \<^verbatim>\<open>NaN\<close>, which \<^verbatim>\<open>padStart\<close> leaves alone.
\<close>

definition totalSeconds :: "int \<Rightarrow> int" where
  "totalSeconds ms = \<lceil>real_of_int (max 0 ms) / 1000\<rceil>"

fun msToMMSS :: "jsnum \<Rightarrow> string" where
  "msToMMSS NaN = padStart2 (toString NaN) @ '':'' @ padStart2 (toString NaN)"
| "msToMMSS (Num ms) =
     (let minutes = totalSeconds ms div 60;
          seconds = totalSeconds ms mod 60
      in padStart2 (toString (Num minutes)) @ '':'' @ padStart2 (toString (Num seconds)))"


section \<open>The page, the store and the state of the timer\<close>

text \<open>
  The module-level variables of the script, together with what the script can reach of
  its surroundings: the text of the elements it looks up (\<open>None\<close> when the document has
  no such element, so \<^verbatim>\<open>getElementById\<close> gave \<^verbatim>\<open>null\<close>), the key-value store,
  the intervals the browser has scheduled, and the effects a finished cycle sends out.
  Style classes, ARIA attributes, listeners and the background music are left out: no
  function of the timer reads them back. Every \<^verbatim>\<open>Date.now()\<close> of one handler run
  reads the same instant \<open>now\<close>, an argument of the handler.
\<close>

datatype effect = Announce | Chime | Vibrate

datatype error = TypeError

record state =
  endTimeMs :: int
  intervalId :: "nat option"
  pausedRemainingMs :: jsnum
  running :: bool
  muted :: bool
  sessionCount :: jsnum
  audioContext :: bool
  canVibrate :: bool
  timerElement :: "string option"
  toggleBtn :: "string option"
  restartBtn :: bool
  muteBtn :: "string option"
  sessionBadge :: "string option"
  localStorage :: "string \<rightharpoonup> string"
  intervals :: "nat list"
  nextHandle :: nat
  effects :: "effect list"

text \<open>What the document and the browser hold when the script is loaded.\<close>

record page =
  pageTimer :: "string option"
  pageToggleBtn :: "string option"
  pageRestartBtn :: bool
  pageMuteBtn :: "string option"
  pageSessionBadge :: "string option"
  stored :: "string \<rightharpoonup> string"
  hasAudio :: bool
  hasVibrate :: bool

definition DURATION :: int where
  "DURATION = 60"

text \<open>The state after the declarations at the top of the script and \<^verbatim>\<open>initAudio\<close>.\<close>

definition boot :: "page \<Rightarrow> state" where
  "boot p = \<lparr> endTimeMs = 0, intervalId = None, pausedRemainingMs = Num (DURATION * 1000),
      running = False, muted = False, sessionCount = Num 0,
      audioContext = hasAudio p, canVibrate = hasVibrate p,
      timerElement = pageTimer p, toggleBtn = pageToggleBtn p, restartBtn = pageRestartBtn p,
      muteBtn = pageMuteBtn p, sessionBadge = pageSessionBadge p,
      localStorage = stored p, intervals = [], nextHandle = 1, effects = [] \<rparr>"

text \<open>
  \<^verbatim>\<open>intervalId = setInterval(tick, TICK_INTERVAL)\<close>: the browser hands out a fresh
  positive handle and keeps the interval until \<^verbatim>\<open>clearInterval\<close> of that handle.
\<close>

definition setInterval :: "state \<Rightarrow> state" where
  "setInterval s = s\<lparr> intervalId := Some (nextHandle s),
      intervals := intervals s @ [nextHandle s], nextHandle := Suc (nextHandle s) \<rparr>"

definition clearInterval :: "nat option \<Rightarrow> state \<Rightarrow> state" where
  "clearInterval h s =
     (case h of None \<Rightarrow> s | Some i \<Rightarrow> s\<lparr> intervals := removeAll i (intervals s) \<rparr>)"

text \<open>\<^verbatim>\<open>if (el) el.textContent = t\<close>, the guarded assignment of the second copy.\<close>

definition setText :: "string \<Rightarrow> string option \<Rightarrow> string option" where
  "setText t el = (case el of None \<Rightarrow> None | Some _ \<Rightarrow> Some t)"

text \<open>\<^verbatim>\<open>sessionCount++\<close>; \<^verbatim>\<open>NaN\<close> stays \<^verbatim>\<open>NaN\<close>.\<close>

fun increment :: "jsnum \<Rightarrow> jsnum" where
  "increment (Num n) = Num (n + 1)"
| "increment NaN = NaN"

subsection \<open>Functions that are the same in both copies\<close>

definition playChime :: "state \<Rightarrow> state" where
  "playChime s = (if muted s \<or> \<not> audioContext s then s else s\<lparr> effects := effects s @ [Chime] \<rparr>)"

definition triggerVibration :: "state \<Rightarrow> state" where
  "triggerVibration s =
     (if muted s \<or> \<not> canVibrate s then s else s\<lparr> effects := effects s @ [Vibrate] \<rparr>)"

definition setEndFromNow :: "state \<Rightarrow> int \<Rightarrow> state" where
  "setEndFromNow s now = s\<lparr> endTimeMs := now + DURATION * 1000 \<rparr>"

text \<open>
  The test \<^verbatim>\<open>pausedRemainingMs > 0 && pausedRemainingMs < DURATION * 1000\<close> of
  \<^verbatim>\<open>startTimer\<close> and the assignment it guards; a comparison with \<^verbatim>\<open>NaN\<close> is false.
\<close>

definition setEnd :: "state \<Rightarrow> int \<Rightarrow> state" where
  "setEnd s now =
     (case pausedRemainingMs s of
        Num r \<Rightarrow> if 0 < r \<and> r < DURATION * 1000 then s\<lparr> endTimeMs := now + r \<rparr>
                 else setEndFromNow s now
      | NaN \<Rightarrow> setEndFromNow s now)"

text \<open>\<^verbatim>\<open>if (intervalId) clearInterval(intervalId)\<close>: \<^verbatim>\<open>null\<close> and \<open>0\<close> count as false.\<close>

definition clearExisting :: "state \<Rightarrow> state" where
  "clearExisting s =
     (case intervalId s of
        None \<Rightarrow> s
      | Some h \<Rightarrow> if h = 0 then s else clearInterval (Some h) s)"


section \<open>The second copy: every element is tested before it is used\<close>

definition onFinish_g :: "state \<Rightarrow> int \<Rightarrow> state" where
  "onFinish_g s now =
     (if timerElement s = None then s
      else
        let s1 = s\<lparr> timerElement := Some ''00:00'' \<rparr>;
            s2 = s1\<lparr> effects := effects s1 @ [Announce] \<rparr>;
            s3 = triggerVibration (playChime s2);
            s4 = s3\<lparr> sessionCount := increment (sessionCount s3) \<rparr>;
            s5 = s4\<lparr> sessionBadge :=
                   setText (''Cycles: '' @ toString (sessionCount s4)) (sessionBadge s4) \<rparr>;
            s6 = s5\<lparr> localStorage :=
                   (localStorage s5)(''shanti_session_count'' \<mapsto> toString (sessionCount s5)) \<rparr>
        in setEndFromNow s6 now)"

definition tick_g :: "state \<Rightarrow> int \<Rightarrow> state" where
  "tick_g s now =
     (let remainingMs = endTimeMs s - now
      in if remainingMs \<le> 0 then onFinish_g s now
         else s\<lparr> timerElement := setText (msToMMSS (Num remainingMs)) (timerElement s) \<rparr>)"

definition startTimer_g :: "state \<Rightarrow> int \<Rightarrow> state" where
  "startTimer_g s now =
     (if running s then s
      else
        let s1 = s\<lparr> running := True \<rparr>;
            s2 = s1\<lparr> toggleBtn := setText ''Pause'' (toggleBtn s1) \<rparr>;
            s3 = setEnd s2 now;
            s4 = clearExisting s3;
            s5 = setInterval s4;
            s6 = s5\<lparr> localStorage := (localStorage s5)(''shanti_running'' \<mapsto> ''1'') \<rparr>
        in s6\<lparr> localStorage := (localStorage s6)(''shanti_paused_remaining'' := None) \<rparr>)"

definition pauseTimer_g :: "state \<Rightarrow> int \<Rightarrow> state" where
  "pauseTimer_g s now =
     (if \<not> running s then s
      else
        let s1 = s\<lparr> running := False \<rparr>;
            s2 = s1\<lparr> toggleBtn := setText ''Resume'' (toggleBtn s1) \<rparr>;
            s3 = (clearInterval (intervalId s2) s2)\<lparr> intervalId := None \<rparr>;
            s4 = s3\<lparr> pausedRemainingMs := Num (max 0 (endTimeMs s3 - now)) \<rparr>;
            s5 = s4\<lparr> localStorage := (localStorage s4)(''shanti_running'' \<mapsto> ''0'') \<rparr>
        in s5\<lparr> localStorage := (localStorage s5)
               (''shanti_paused_remaining'' \<mapsto> toString (pausedRemainingMs s5)) \<rparr>)"

definition toggleTimer_g :: "state \<Rightarrow> int \<Rightarrow> state" where
  "toggleTimer_g s now = (if running s then pauseTimer_g s now else startTimer_g s now)"

definition restartTimer_g :: "state \<Rightarrow> int \<Rightarrow> state" where
  "restartTimer_g s now =
     (let s1 = s\<lparr> pausedRemainingMs := Num (DURATION * 1000) \<rparr>;
          s2 = (if running s1 then tick_g (setEndFromNow s1 now) now
                else s1\<lparr> timerElement := setText ''01:00'' (timerElement s1) \<rparr>)
      in s2\<lparr> localStorage := (localStorage s2)
             (''shanti_paused_remaining'' \<mapsto> toString (pausedRemainingMs s2)) \<rparr>)"

definition toggleMute_g :: "state \<Rightarrow> state" where
  "toggleMute_g s =
     (let s1 = s\<lparr> muted := \<not> muted s \<rparr>;
          s2 = s1\<lparr> muteBtn := setText (if muted s1 then ''Unmute'' else ''Mute'') (muteBtn s1) \<rparr>
      in s2\<lparr> localStorage := (localStorage s2)(''shanti_muted'' \<mapsto> boolToString (muted s2)) \<rparr>)"

text \<open>
  \<^verbatim>\<open>initApp\<close>, block by block. The four saved strings are read from the store before
  anything is written to it. The block that sets up the background music assigns
  \<^verbatim>\<open>muted\<close> the value the next block gives it as well.
\<close>

definition restoreMuted_g :: "string option \<Rightarrow> state \<Rightarrow> state" where
  "restoreMuted_g savedMuted s =
     (if savedMuted = Some ''true''
      then s\<lparr> muted := True, muteBtn := setText ''Unmute'' (muteBtn s) \<rparr>
      else s)"

definition restoreSessionCount_g :: "string option \<Rightarrow> state \<Rightarrow> state" where
  "restoreSessionCount_g savedSessionCount s =
     (if truthy savedSessionCount
      then
        let s1 = s\<lparr> sessionCount := parseInt (the savedSessionCount) \<rparr>
        in s1\<lparr> sessionBadge :=
               setText (''Cycles: '' @ toString (sessionCount s1)) (sessionBadge s1) \<rparr>
      else s)"

definition restorePausedRemaining_g :: "string option \<Rightarrow> state \<Rightarrow> state" where
  "restorePausedRemaining_g savedPausedRemaining s =
     (if truthy savedPausedRemaining
      then
        let s1 = s\<lparr> pausedRemainingMs := parseInt (the savedPausedRemaining) \<rparr>
        in s1\<lparr> timerElement := setText (msToMMSS (pausedRemainingMs s1)) (timerElement s1) \<rparr>
      else s)"

definition initApp :: "page \<Rightarrow> int \<Rightarrow> state" where
  "initApp p now =
     (let savedMuted = stored p ''shanti_muted'';
          savedRunning = stored p ''shanti_running'';
          savedPausedRemaining = stored p ''shanti_paused_remaining'';
          savedSessionCount = stored p ''shanti_session_count'';
          s1 = restoreMuted_g savedMuted (boot p);
          s2 = restoreSessionCount_g savedSessionCount s1;
          s3 = restorePausedRemaining_g savedPausedRemaining s2
      in if savedRunning = Some ''1'' then startTimer_g s3 now
         else startTimer_g (s3\<lparr> running := False, toggleBtn := setText ''Pause'' (toggleBtn s3) \<rparr>) now)"

section \<open>script.js: the elements are used without a test\<close>

text \<open>
  Reading a property of \<^verbatim>\<open>null\<close> throws \<^verbatim>\<open>TypeError\<close>, which nothing catches: the
  handler stops there. The result is then \<open>Inl TypeError\<close>; the state the handler
  leaves half-written is not followed further.
\<close>

definition bindE :: "error + state \<Rightarrow> (state \<Rightarrow> error + state) \<Rightarrow> error + state" where
  "bindE r f = (case r of Inl e \<Rightarrow> Inl e | Inr s \<Rightarrow> f s)"

definition assignText :: "string \<Rightarrow> string option \<Rightarrow> error + string option" where
  "assignText t el = (case el of None \<Rightarrow> Inl TypeError | Some _ \<Rightarrow> Inr (Some t))"

definition onFinish :: "state \<Rightarrow> int \<Rightarrow> error + state" where
  "onFinish s now =
     (case assignText ''00:00'' (timerElement s) of
        Inl e \<Rightarrow> Inl e
      | Inr el \<Rightarrow>
          let s1 = s\<lparr> timerElement := el \<rparr>;
              s2 = s1\<lparr> effects := effects s1 @ [Announce] \<rparr>;
              s3 = triggerVibration (playChime s2);
              s4 = s3\<lparr> sessionCount := increment (sessionCount s3) \<rparr>
          in (case assignText (''Cycles: '' @ toString (sessionCount s4)) (sessionBadge s4) of
                Inl e \<Rightarrow> Inl e
              | Inr badge \<Rightarrow>
                  let s5 = s4\<lparr> sessionBadge := badge \<rparr>;
                      s6 = s5\<lparr> localStorage := (localStorage s5)
                             (''shanti_session_count'' \<mapsto> toString (sessionCount s5)) \<rparr>
                  in Inr (setEndFromNow s6 now)))"

definition tick :: "state \<Rightarrow> int \<Rightarrow> error + state" where
  "tick s now =
     (let remainingMs = endTimeMs s - now
      in if remainingMs \<le> 0 then onFinish s now
         else (case assignText (msToMMSS (Num remainingMs)) (timerElement s) of
                 Inl e \<Rightarrow> Inl e
               | Inr el \<Rightarrow> Inr (s\<lparr> timerElement := el \<rparr>)))"

definition startTimer :: "state \<Rightarrow> int \<Rightarrow> error + state" where
  "startTimer s now =
     (if running s then Inr s
      else
        let s1 = s\<lparr> running := True \<rparr>
        in (case assignText ''Pause'' (toggleBtn s1) of
              Inl e \<Rightarrow> Inl e
            | Inr btn \<Rightarrow>
                let s2 = s1\<lparr> toggleBtn := btn \<rparr>;
                    s3 = setEnd s2 now;
                    s4 = clearExisting s3;
                    s5 = setInterval s4;
                    s6 = s5\<lparr> localStorage := (localStorage s5)(''shanti_running'' \<mapsto> ''1'') \<rparr>
                in Inr (s6\<lparr> localStorage :=
                          (localStorage s6)(''shanti_paused_remaining'' := None) \<rparr>)))"

definition pauseTimer :: "state \<Rightarrow> int \<Rightarrow> error + state" where
  "pauseTimer s now =
     (if \<not> running s then Inr s
      else
        let s1 = s\<lparr> running := False \<rparr>
        in (case assignText ''Resume'' (toggleBtn s1) of
              Inl e \<Rightarrow> Inl e
            | Inr btn \<Rightarrow>
                let s2 = s1\<lparr> toggleBtn := btn \<rparr>;
                    s3 = (clearInterval (intervalId s2) s2)\<lparr> intervalId := None \<rparr>;
                    s4 = s3\<lparr> pausedRemainingMs := Num (max 0 (endTimeMs s3 - now)) \<rparr>;
                    s5 = s4\<lparr> localStorage := (localStorage s4)(''shanti_running'' \<mapsto> ''0'') \<rparr>
                in Inr (s5\<lparr> localStorage := (localStorage s5)
                          (''shanti_paused_remaining'' \<mapsto> toString (pausedRemainingMs s5)) \<rparr>)))"

definition toggleTimer :: "state \<Rightarrow> int \<Rightarrow> error + state" where
  "toggleTimer s now = (if running s then pauseTimer s now else startTimer s now)"

definition restartTimer :: "state \<Rightarrow> int \<Rightarrow> error + state" where
  "restartTimer s now =
     (let s1 = s\<lparr> pausedRemainingMs := Num (DURATION * 1000) \<rparr>
      in (case (if running s1 then tick (setEndFromNow s1 now) now
                else (case assignText ''01:00'' (timerElement s1) of
                        Inl e \<Rightarrow> Inl e
                      | Inr el \<Rightarrow> Inr (s1\<lparr> timerElement := el \<rparr>))) of
            Inl e \<Rightarrow> Inl e
          | Inr s2 \<Rightarrow> Inr (s2\<lparr> localStorage := (localStorage s2)
                 (''shanti_paused_remaining'' \<mapsto> toString (pausedRemainingMs s2)) \<rparr>)))"

definition toggleMute :: "state \<Rightarrow> error + state" where
  "toggleMute s =
     (let s1 = s\<lparr> muted := \<not> muted s \<rparr>
      in (case assignText (if muted s1 then ''Unmute'' else ''Mute'') (muteBtn s1) of
            Inl e \<Rightarrow> Inl e
          | Inr btn \<Rightarrow>
              let s2 = s1\<lparr> muteBtn := btn \<rparr>
              in Inr (s2\<lparr> localStorage :=
                        (localStorage s2)(''shanti_muted'' \<mapsto> boolToString (muted s2)) \<rparr>)))"

text \<open>The handler of \<^verbatim>\<open>DOMContentLoaded\<close>, block by block.\<close>

definition restoreMuted :: "string option \<Rightarrow> state \<Rightarrow> error + state" where
  "restoreMuted savedMuted s =
     (if savedMuted = Some ''true''
      then (case assignText ''Unmute'' (muteBtn s) of
              Inl e \<Rightarrow> Inl e
            | Inr btn \<Rightarrow> Inr (s\<lparr> muted := True, muteBtn := btn \<rparr>))
      else Inr s)"

definition restoreSessionCount :: "string option \<Rightarrow> state \<Rightarrow> error + state" where
  "restoreSessionCount savedSessionCount s =
     (if truthy savedSessionCount
      then
        let s1 = s\<lparr> sessionCount := parseInt (the savedSessionCount) \<rparr>
        in (case assignText (''Cycles: '' @ toString (sessionCount s1)) (sessionBadge s1) of
              Inl e \<Rightarrow> Inl e
            | Inr badge \<Rightarrow> Inr (s1\<lparr> sessionBadge := badge \<rparr>))
      else Inr s)"

definition restorePausedRemaining :: "string option \<Rightarrow> state \<Rightarrow> error + state" where
  "restorePausedRemaining savedPausedRemaining s =
     (if truthy savedPausedRemaining
      then
        let s1 = s\<lparr> pausedRemainingMs := parseInt (the savedPausedRemaining) \<rparr>
        in (case assignText (msToMMSS (pausedRemainingMs s1)) (timerElement s1) of
              Inl e \<Rightarrow> Inl e
            | Inr el \<Rightarrow> Inr (s1\<lparr> timerElement := el \<rparr>))
      else Inr s)"

definition startOrRestore :: "string option \<Rightarrow> string option \<Rightarrow> int \<Rightarrow> state \<Rightarrow> error + state" where
  "startOrRestore savedRunning savedPausedRemaining now s =
     (if savedRunning = Some ''1'' then startTimer s now
      else if truthy savedPausedRemaining
      then (case assignText ''Resume'' (toggleBtn s) of
              Inl e \<Rightarrow> Inl e
            | Inr btn \<Rightarrow> Inr (s\<lparr> running := False, toggleBtn := btn \<rparr>))
      else Inr s)"

definition addListeners :: "state \<Rightarrow> error + state" where
  "addListeners s =
     (if toggleBtn s = None \<or> \<not> restartBtn s \<or> muteBtn s = None then Inl TypeError else Inr s)"

definition autoStart :: "string option \<Rightarrow> int \<Rightarrow> state \<Rightarrow> error + state" where
  "autoStart savedRunning now s = (if savedRunning \<noteq> Some ''0'' then startTimer s now else Inr s)"

definition onDOMContentLoaded :: "page \<Rightarrow> int \<Rightarrow> error + state" where
  "onDOMContentLoaded p now =
     (let savedMuted = stored p ''shanti_muted'';
          savedRunning = stored p ''shanti_running'';
          savedPausedRemaining = stored p ''shanti_paused_remaining'';
          savedSessionCount = stored p ''shanti_session_count''
      in bindE (bindE (bindE (bindE (bindE
           (restoreMuted savedMuted (boot p))
           (restoreSessionCount savedSessionCount))
           (restorePausedRemaining savedPausedRemaining))
           (startOrRestore savedRunning savedPausedRemaining now))
           addListeners)
           (autoStart savedRunning now))"


section \<open>Sequences of operations\<close>

text \<open>
  The operations a user or the browser can set off, each with the instant at which it
  runs. The browser runs \<^verbatim>\<open>tick\<close> only for an interval that is scheduled.
\<close>

datatype command = Start | Pause | Toggle | Restart | Mute | Tick

fun step_g :: "command \<Rightarrow> state \<Rightarrow> int \<Rightarrow> state" where
  "step_g Start s now = startTimer_g s now"
| "step_g Pause s now = pauseTimer_g s now"
| "step_g Toggle s now = toggleTimer_g s now"
| "step_g Restart s now = restartTimer_g s now"
| "step_g Mute s now = toggleMute_g s"
| "step_g Tick s now = (if intervals s = [] then s else tick_g s now)"

fun run_g :: "state \<Rightarrow> (command \<times> int) list \<Rightarrow> state" where
  "run_g s [] = s"
| "run_g s ((c, now) # cs) = run_g (step_g c s now) cs"

fun step :: "command \<Rightarrow> state \<Rightarrow> int \<Rightarrow> error + state" where
  "step Start s now = startTimer s now"
| "step Pause s now = pauseTimer s now"
| "step Toggle s now = toggleTimer s now"
| "step Restart s now = restartTimer s now"
| "step Mute s now = toggleMute s"
| "step Tick s now = (if intervals s = [] then Inr s else tick s now)"

fun run :: "state \<Rightarrow> (command \<times> int) list \<Rightarrow> error + state" where
  "run s [] = Inr s"
| "run s ((c, now) # cs) = (case step c s now of Inl e \<Rightarrow> Inl e | Inr s' \<Rightarrow> run s' cs)"

text \<open>The clock never runs backwards: the instants of a sequence, from \<open>t\<close> on, do not decrease.\<close>

fun monotone :: "int \<Rightarrow> (command \<times> int) list \<Rightarrow> bool" where
  "monotone t [] = True"
| "monotone t ((c, now) # cs) = (t \<le> now \<and> monotone now cs)"

text \<open>The instant of the last operation of a sequence that starts at \<open>t\<close>.\<close>

fun lastInstant :: "int \<Rightarrow> (command \<times> int) list \<Rightarrow> int" where
  "lastInstant t [] = t"
| "lastInstant t ((c, now) # cs) = lastInstant now cs"

text \<open>A document that has all five elements the script looks up.\<close>

definition complete :: "state \<Rightarrow> bool" where
  "complete s = (timerElement s \<noteq> None \<and> toggleBtn s \<noteq> None \<and> restartBtn s \<and>
     muteBtn s \<noteq> None \<and> sessionBadge s \<noteq> None)"

definition completePage :: "page \<Rightarrow> bool" where
  "completePage p = (pageTimer p \<noteq> None \<and> pageToggleBtn p \<noteq> None \<and> pageRestartBtn p \<and>
     pageMuteBtn p \<noteq> None \<and> pageSessionBadge p \<noteq> None)"

text \<open>A page for the examples: all elements, no audio, and the given stored entries.\<close>

definition examplePage :: "(string \<times> string) list \<Rightarrow> page" where
  "examplePage kvs = \<lparr> pageTimer = Some ''01:00'', pageToggleBtn = Some ''Pause'',
     pageRestartBtn = True, pageMuteBtn = Some ''Mute'', pageSessionBadge = Some ''Cycles: 0'',
     stored = map_of kvs, hasAudio = True, hasVibrate = True \<rparr>"


text \<open>The stored entries of a timer that was paused with 30 seconds left, muted, after 7 cycles.\<close>

definition pausedSnapshot :: "(string \<times> string) list" where
  "pausedSnapshot = [(''shanti_running'', ''0''), (''shanti_paused_remaining'', ''30000''),
     (''shanti_muted'', ''true''), (''shanti_session_count'', ''7'')]"


text \<open>
  The schedule matches the phase: a running timer has exactly one interval, the one of
  \<^verbatim>\<open>intervalId\<close>; a paused timer has none. Handles are positive and fresh.
\<close>

definition scheduleOk :: "state \<Rightarrow> bool" where
  "scheduleOk s =
     (0 < nextHandle s \<and>
      (case intervalId s of
         None \<Rightarrow> \<not> running s \<and> intervals s = []
       | Some h \<Rightarrow> running s \<and> 0 < h \<and> h < nextHandle s \<and> intervals s = [h]))"

text \<open>\<open>0 \<le> pausedRemainingMs \<le> DURATION * 1000\<close>, a number.\<close>

definition pausedInRange :: "jsnum \<Rightarrow> bool" where
  "pausedInRange r = (case r of Num n \<Rightarrow> 0 \<le> n \<and> n \<le> DURATION * 1000 | NaN \<Rightarrow> False)"

text \<open>
  A store whose \<^verbatim>\<open>shanti_paused_remaining\<close> is absent, empty, or parses to a number of
  the range.
\<close>

definition storedInRange :: "page \<Rightarrow> bool" where
  "storedInRange p =
     (case stored p ''shanti_paused_remaining'' of
        None \<Rightarrow> True
      | Some v \<Rightarrow> v = [] \<or> pausedInRange (parseInt v))"

text \<open>
  The timing invariant at instant \<open>t\<close>: \<^verbatim>\<open>pausedRemainingMs\<close> is in range, and a running
  timer ends no later than one cycle after \<open>t\<close>.
\<close>

definition timeOk :: "state \<Rightarrow> int \<Rightarrow> bool" where
  "timeOk s t = (pausedInRange (pausedRemainingMs s) \<and>
     (if running s then endTimeMs s \<le> t + DURATION * 1000 else True))"

text \<open>Stored entries that do not parse as numbers.\<close>

definition malformedSnapshot :: "(string \<times> string) list" where
  "malformedSnapshot = [(''shanti_running'', ''0''), (''shanti_paused_remaining'', ''abc''),
     (''shanti_session_count'', ''xyz'')]"

text \<open>Stored entries of a paused timer with more time left than a cycle has.\<close>

definition outOfRangeSnapshot :: "(string \<times> string) list" where
  "outOfRangeSnapshot = [(''shanti_running'', ''0''), (''shanti_paused_remaining'', ''90000'')]"


section \<open>Facts about the number and string functions\<close>

lemma totalSeconds_div: "totalSeconds ms = - ((- max 0 ms) div 1000)"
  unfolding totalSeconds_def using ceiling_divide_eq_div [of "max 0 ms" 1000] by simp

lemma dec_nonempty: "dec n \<noteq> []"
  by (subst dec.simps) simp

lemma dec_small: "n < 10 \<Longrightarrow> dec n = [digit n]"
  by (subst dec.simps) simp

lemma dec_large: "10 \<le> n \<Longrightarrow> dec n = dec (n div 10) @ [digit (n mod 10)]"
  by (subst dec.simps) simp

lemma dec_length_large: "10 \<le> n \<Longrightarrow> 2 \<le> length (dec n)"
proof -
  assume "10 \<le> n"
  moreover have "1 \<le> length (dec (n div 10))"
    using dec_nonempty [of "n div 10"] by (cases "dec (n div 10)") simp_all
  ultimately show ?thesis by (simp add: dec_large)
qed

lemma digit_zero_iff: "n < 10 \<Longrightarrow> digit n = CHR ''0'' \<longleftrightarrow> n = 0"
proof -
  assume "n < 10"
  moreover have "distinct ''0123456789''" by simp
  ultimately show ?thesis
    using nth_eq_iff_index_eq [of "''0123456789''" n 0] by (simp add: digit_def)
qed

lemma dec_two_digits: "n < 100 \<Longrightarrow> padStart2 (dec n) = [digit (n div 10), digit (n mod 10)]"
proof (cases "n < 10")
  case True
  then show ?thesis by (simp add: dec_small padStart2_def digit_def)
next
  case False
  assume "n < 100"
  with False have "n div 10 < 10" "10 \<le> n" by simp_all
  then show ?thesis by (simp add: dec_large dec_small padStart2_def)
qed

lemma padded_zero_iff: "padStart2 (dec n) = ''00'' \<longleftrightarrow> n = 0"
proof (cases "n < 100")
  case True
  then have "n div 10 < 10" "n mod 10 < 10" by simp_all
  then show ?thesis
    using True by (auto simp: dec_two_digits digit_zero_iff)
next
  case False
  then have "10 \<le> n div 10" by simp
  then have "2 \<le> length (dec (n div 10))" by (rule dec_length_large)
  moreover have "dec n = dec (n div 10) @ [digit (n mod 10)]"
    using False by (simp add: dec_large)
  ultimately have "3 \<le> length (padStart2 (dec n))" by (simp add: padStart2_def)
  then show ?thesis using False by auto
qed


lemma msToMMSS_parts:
  "msToMMSS (Num ms) =
     padStart2 (dec (nat (totalSeconds ms div 60))) @ '':'' @
     padStart2 (dec (nat (totalSeconds ms mod 60)))"
proof -
  have "0 \<le> totalSeconds ms" by (simp add: totalSeconds_def)
  then have "\<not> totalSeconds ms div 60 < 0" by (simp add: pos_imp_zdiv_neg_iff)
  moreover have "\<not> totalSeconds ms mod 60 < 0" by (simp add: not_less)
  ultimately show ?thesis by (simp add: Let_def)
qed

lemma msToMMSS_nonzero:
  assumes "1 \<le> ms"
  shows "msToMMSS (Num ms) \<noteq> ''00:00''"
proof -
  define t where "t = totalSeconds ms"
  define m where "m = nat (t div 60)"
  define s where "s = nat (t mod 60)"
  have t1: "1 \<le> t" using assms by (simp add: t_def totalSeconds_def)
  have "m \<noteq> 0 \<or> s \<noteq> 0"
  proof (rule ccontr)
    assume "\<not> (m \<noteq> 0 \<or> s \<noteq> 0)"
    then have "t div 60 \<le> 0" "t mod 60 \<le> 0" by (simp_all add: m_def s_def)
    moreover have "t = 60 * (t div 60) + t mod 60" by simp
    ultimately have "t \<le> 0" by linarith
    with t1 show False by simp
  qed
  then have "padStart2 (dec m) \<noteq> ''00'' \<or> padStart2 (dec s) \<noteq> ''00''"
    by (simp add: padded_zero_iff)
  moreover have "s < 60" by (simp add: s_def nat_less_iff)
  then have "length (padStart2 (dec s)) = 2" by (simp add: dec_two_digits)
  ultimately show ?thesis
    unfolding msToMMSS_parts t_def [symmetric] m_def [symmetric] s_def [symmetric]
    by (auto simp: append_eq_Cons_conv Cons_eq_append_conv)
qed


lemma toString_full: "toString (Num (DURATION * 1000)) = ''60000''"
  by (simp add: DURATION_def dec.simps digit_def)

section \<open>script.js and the second copy agree where the elements exist\<close>

lemma onFinish_agree:
  "timerElement s \<noteq> None \<Longrightarrow> sessionBadge s \<noteq> None \<Longrightarrow> onFinish s now = Inr (onFinish_g s now)"
  by (auto simp: onFinish_def onFinish_g_def assignText_def setText_def Let_def
      playChime_def triggerVibration_def setEndFromNow_def)

lemma tick_agree:
  "timerElement s \<noteq> None \<Longrightarrow> sessionBadge s \<noteq> None \<Longrightarrow> tick s now = Inr (tick_g s now)"
  by (auto simp: tick_def tick_g_def onFinish_agree assignText_def setText_def Let_def)

lemma startTimer_agree:
  "toggleBtn s \<noteq> None \<Longrightarrow> startTimer s now = Inr (startTimer_g s now)"
  by (auto simp: startTimer_def startTimer_g_def assignText_def setText_def Let_def)

lemma pauseTimer_agree:
  "toggleBtn s \<noteq> None \<Longrightarrow> pauseTimer s now = Inr (pauseTimer_g s now)"
  by (auto simp: pauseTimer_def pauseTimer_g_def assignText_def setText_def Let_def)

lemma toggleTimer_agree:
  "toggleBtn s \<noteq> None \<Longrightarrow> toggleTimer s now = Inr (toggleTimer_g s now)"
  by (simp add: toggleTimer_def toggleTimer_g_def startTimer_agree pauseTimer_agree)

lemma restartTimer_agree:
  "timerElement s \<noteq> None \<Longrightarrow> sessionBadge s \<noteq> None \<Longrightarrow>
   restartTimer s now = Inr (restartTimer_g s now)"
  by (auto simp: restartTimer_def restartTimer_g_def tick_agree setEndFromNow_def
      assignText_def setText_def Let_def)

lemma toggleMute_agree:
  "muteBtn s \<noteq> None \<Longrightarrow> toggleMute s = Inr (toggleMute_g s)"
  by (auto simp: toggleMute_def toggleMute_g_def assignText_def setText_def Let_def)

lemma complete_boot: "completePage p \<Longrightarrow> complete (boot p)"
  by (simp add: completePage_def complete_def boot_def)

section \<open>What initialisation and the operations change\<close>

lemma bindE_Inr: "bindE (Inr s) f = f s"
  by (simp add: bindE_def)

lemma restoreMuted_agree:
  "muteBtn s \<noteq> None \<Longrightarrow> restoreMuted m s = Inr (restoreMuted_g m s)"
  by (auto simp: restoreMuted_def restoreMuted_g_def assignText_def setText_def)

lemma restoreSessionCount_agree:
  "sessionBadge s \<noteq> None \<Longrightarrow> restoreSessionCount c s = Inr (restoreSessionCount_g c s)"
  by (auto simp: restoreSessionCount_def restoreSessionCount_g_def assignText_def setText_def
      Let_def)

lemma restorePausedRemaining_agree:
  "timerElement s \<noteq> None \<Longrightarrow>
   restorePausedRemaining r s = Inr (restorePausedRemaining_g r s)"
  by (auto simp: restorePausedRemaining_def restorePausedRemaining_g_def assignText_def
      setText_def Let_def)

lemma setText_None: "setText t el = None \<longleftrightarrow> el = None"
  by (simp add: setText_def split: option.splits)

lemma complete_restoreMuted_g: "complete (restoreMuted_g m s) = complete s"
  by (simp add: complete_def restoreMuted_g_def setText_None del: not_None_eq)

lemma complete_restoreSessionCount_g: "complete (restoreSessionCount_g c s) = complete s"
  by (simp add: complete_def restoreSessionCount_g_def setText_None Let_def del: not_None_eq)

lemma complete_restorePausedRemaining_g: "complete (restorePausedRemaining_g r s) = complete s"
  by (simp add: complete_def restorePausedRemaining_g_def setText_None Let_def del: not_None_eq)

lemma restored_fields:
  fixes p :: page
  defines "s \<equiv> restorePausedRemaining_g (stored p ''shanti_paused_remaining'')
     (restoreSessionCount_g (stored p ''shanti_session_count'')
       (restoreMuted_g (stored p ''shanti_muted'') (boot p)))"
  shows "\<not> running s" and "intervalId s = None" and "intervals s = []" and "nextHandle s = 1"
    and "effects s = []" and "endTimeMs s = 0" and "localStorage s = stored p"
    and "muted s = (stored p ''shanti_muted'' = Some ''true'')"
    and "sessionCount s = (if truthy (stored p ''shanti_session_count'')
           then parseInt (the (stored p ''shanti_session_count'')) else Num 0)"
    and "pausedRemainingMs s = (if truthy (stored p ''shanti_paused_remaining'')
           then parseInt (the (stored p ''shanti_paused_remaining'')) else Num (DURATION * 1000))"
    and "timerElement s = (if truthy (stored p ''shanti_paused_remaining'')
           then setText (msToMMSS (parseInt (the (stored p ''shanti_paused_remaining''))))
             (pageTimer p) else pageTimer p)"
    and "sessionBadge s = (if truthy (stored p ''shanti_session_count'')
           then setText (''Cycles: '' @ toString (parseInt (the (stored p ''shanti_session_count''))))
             (pageSessionBadge p) else pageSessionBadge p)"
    and "toggleBtn s = pageToggleBtn p" and "restartBtn s = pageRestartBtn p"
    and "muteBtn s = (if stored p ''shanti_muted'' = Some ''true''
           then setText ''Unmute'' (pageMuteBtn p) else pageMuteBtn p)"
    and "complete s = completePage p"
  unfolding s_def
  by (simp_all add: restorePausedRemaining_g_def restoreSessionCount_g_def restoreMuted_g_def
      boot_def Let_def complete_def completePage_def setText_None
      del: msToMMSS.simps toString.simps not_None_eq)


lemma setEnd_fields:
  "endTimeMs (setEnd s now) =
      (case pausedRemainingMs s of
         Num r \<Rightarrow> if 0 < r \<and> r < DURATION * 1000 then now + r else now + DURATION * 1000
       | NaN \<Rightarrow> now + DURATION * 1000)"
  "setEnd s now = s\<lparr> endTimeMs := endTimeMs (setEnd s now) \<rparr>"
  by (cases "pausedRemainingMs s"; simp add: setEnd_def setEndFromNow_def)+

lemma clearExisting_fields:
  "clearExisting s = s\<lparr> intervals := intervals (clearExisting s) \<rparr>"
  "intervalId s = None \<Longrightarrow> intervals (clearExisting s) = intervals s"
  "intervalId s = Some h \<Longrightarrow> 0 < h \<Longrightarrow> intervals (clearExisting s) = removeAll h (intervals s)"
  by (cases "intervalId s"; simp add: clearExisting_def clearInterval_def)+

lemma startTimer_g_unfold:
  assumes "\<not> running s"
  shows "startTimer_g s now = s\<lparr> running := True, toggleBtn := setText ''Pause'' (toggleBtn s),
      endTimeMs := endTimeMs (setEnd s now), intervalId := Some (nextHandle s),
      intervals := intervals (clearExisting s) @ [nextHandle s],
      nextHandle := Suc (nextHandle s),
      localStorage :=
        ((localStorage s)(''shanti_running'' \<mapsto> ''1''))(''shanti_paused_remaining'' := None) \<rparr>"
proof -
  let ?s2 = "s\<lparr> running := True, toggleBtn := setText ''Pause'' (toggleBtn s) \<rparr>"
  have e: "setEnd ?s2 now = ?s2\<lparr> endTimeMs := endTimeMs (setEnd s now) \<rparr>"
    by (subst setEnd_fields(2)) (simp add: setEnd_fields(1))
  let ?s3 = "?s2\<lparr> endTimeMs := endTimeMs (setEnd s now) \<rparr>"
  have i: "intervals (clearExisting ?s3) = intervals (clearExisting s)"
    by (cases "intervalId s") (simp_all add: clearExisting_def clearInterval_def)
  have c: "clearExisting ?s3 = ?s3\<lparr> intervals := intervals (clearExisting s) \<rparr>"
    by (subst clearExisting_fields(1)) (simp add: i)
  show ?thesis
    using assms by (simp add: startTimer_g_def Let_def e c setInterval_def)
qed

lemma startTimer_g_fields:
  assumes "\<not> running s"
  shows "running (startTimer_g s now)"
    and "endTimeMs (startTimer_g s now) =
      (case pausedRemainingMs s of
         Num r \<Rightarrow> if 0 < r \<and> r < DURATION * 1000 then now + r else now + DURATION * 1000
       | NaN \<Rightarrow> now + DURATION * 1000)"
    and "pausedRemainingMs (startTimer_g s now) = pausedRemainingMs s"
    and "muted (startTimer_g s now) = muted s"
    and "sessionCount (startTimer_g s now) = sessionCount s"
    and "effects (startTimer_g s now) = effects s"
    and "timerElement (startTimer_g s now) = timerElement s"
    and "sessionBadge (startTimer_g s now) = sessionBadge s"
    and "muteBtn (startTimer_g s now) = muteBtn s"
    and "restartBtn (startTimer_g s now) = restartBtn s"
    and "toggleBtn (startTimer_g s now) = setText ''Pause'' (toggleBtn s)"
    and "audioContext (startTimer_g s now) = audioContext s"
    and "canVibrate (startTimer_g s now) = canVibrate s"
    and "intervalId (startTimer_g s now) = Some (nextHandle s)"
    and "nextHandle (startTimer_g s now) = Suc (nextHandle s)"
    and "intervals (startTimer_g s now) = intervals (clearExisting s) @ [nextHandle s]"
    and "localStorage (startTimer_g s now) =
      ((localStorage s)(''shanti_running'' \<mapsto> ''1''))(''shanti_paused_remaining'' := None)"
  by (simp_all add: startTimer_g_unfold [OF assms] setEnd_fields(1))

lemma initApp_fields:
  shows "running (initApp p now)"
    and "endTimeMs (initApp p now) =
      (case pausedRemainingMs (initApp p now) of
         Num r \<Rightarrow> if 0 < r \<and> r < DURATION * 1000 then now + r else now + DURATION * 1000
       | NaN \<Rightarrow> now + DURATION * 1000)"
    and "pausedRemainingMs (initApp p now) =
      (if truthy (stored p ''shanti_paused_remaining'')
       then parseInt (the (stored p ''shanti_paused_remaining'')) else Num (DURATION * 1000))"
    and "muted (initApp p now) = (stored p ''shanti_muted'' = Some ''true'')"
    and "sessionCount (initApp p now) =
      (if truthy (stored p ''shanti_session_count'')
       then parseInt (the (stored p ''shanti_session_count'')) else Num 0)"
    and "effects (initApp p now) = []"
    and "intervalId (initApp p now) = Some 1"
    and "nextHandle (initApp p now) = 2"
    and "intervals (initApp p now) = [1]"
    and "localStorage (initApp p now) =
      ((stored p)(''shanti_running'' \<mapsto> ''1''))(''shanti_paused_remaining'' := None)"
    and "timerElement (initApp p now) = (if truthy (stored p ''shanti_paused_remaining'')
           then setText (msToMMSS (parseInt (the (stored p ''shanti_paused_remaining''))))
             (pageTimer p) else pageTimer p)"
    and "sessionBadge (initApp p now) = (if truthy (stored p ''shanti_session_count'')
           then setText (''Cycles: '' @ toString (parseInt (the (stored p ''shanti_session_count''))))
             (pageSessionBadge p) else pageSessionBadge p)"
    and "complete (initApp p now) = completePage p"
  unfolding initApp_def Let_def
  by (simp_all add: startTimer_g_fields restored_fields clearExisting_fields(2)
      complete_def completePage_def setText_None
      del: msToMMSS.simps toString.simps not_None_eq)


lemma scheduleOk_start: "scheduleOk s \<Longrightarrow> scheduleOk (startTimer_g s now)"
proof (cases "running s")
  case True
  then show "scheduleOk s \<Longrightarrow> ?thesis" by (simp add: startTimer_g_def)
next
  case False
  assume "scheduleOk s"
  with False have "intervalId s = None" "intervals s = []" "0 < nextHandle s"
    by (auto simp: scheduleOk_def split: option.splits)
  then show ?thesis
    by (simp add: scheduleOk_def startTimer_g_fields [OF False] clearExisting_fields(2))
qed

lemma scheduleOk_pause: "scheduleOk s \<Longrightarrow> scheduleOk (pauseTimer_g s now)"
  by (auto simp: scheduleOk_def pauseTimer_g_def Let_def clearInterval_def split: option.splits)

lemma tick_g_frame:
  "running (tick_g s now) = running s" "intervalId (tick_g s now) = intervalId s"
  "intervals (tick_g s now) = intervals s" "nextHandle (tick_g s now) = nextHandle s"
  "pausedRemainingMs (tick_g s now) = pausedRemainingMs s"
  "muted (tick_g s now) = muted s"
  by (simp_all add: tick_g_def onFinish_g_def Let_def playChime_def triggerVibration_def
      setEndFromNow_def)

lemma restartTimer_g_frame:
  "running (restartTimer_g s now) = running s" "intervalId (restartTimer_g s now) = intervalId s"
  "intervals (restartTimer_g s now) = intervals s" "nextHandle (restartTimer_g s now) = nextHandle s"
  "pausedRemainingMs (restartTimer_g s now) = Num (DURATION * 1000)"
  "muted (restartTimer_g s now) = muted s"
  by (simp_all add: restartTimer_g_def tick_g_frame setEndFromNow_def Let_def)

lemma toggleMute_g_frame:
  "running (toggleMute_g s) = running s" "intervalId (toggleMute_g s) = intervalId s"
  "intervals (toggleMute_g s) = intervals s" "nextHandle (toggleMute_g s) = nextHandle s"
  "pausedRemainingMs (toggleMute_g s) = pausedRemainingMs s"
  "endTimeMs (toggleMute_g s) = endTimeMs s"
  by (simp_all add: toggleMute_g_def Let_def)

lemma scheduleOk_frame:
  "running s' = running s \<Longrightarrow> intervalId s' = intervalId s \<Longrightarrow> intervals s' = intervals s \<Longrightarrow>
   nextHandle s' = nextHandle s \<Longrightarrow> scheduleOk s \<Longrightarrow> scheduleOk s'"
  by (simp add: scheduleOk_def cong: option.case_cong)

lemma scheduleOk_step: "scheduleOk s \<Longrightarrow> scheduleOk (step_g c s now)"
proof (cases c)
  case Start
  then show "scheduleOk s \<Longrightarrow> ?thesis" by (simp add: scheduleOk_start)
next
  case Pause
  then show "scheduleOk s \<Longrightarrow> ?thesis" by (simp add: scheduleOk_pause)
next
  case Toggle
  then show "scheduleOk s \<Longrightarrow> ?thesis"
    by (simp add: toggleTimer_g_def scheduleOk_start scheduleOk_pause)
next
  case Restart
  then show "scheduleOk s \<Longrightarrow> ?thesis"
    using scheduleOk_frame [of "restartTimer_g s now" s] by (simp add: restartTimer_g_frame)
next
  case Mute
  then show "scheduleOk s \<Longrightarrow> ?thesis"
    using scheduleOk_frame [of "toggleMute_g s" s] by (simp add: toggleMute_g_frame)
next
  case Tick
  then show "scheduleOk s \<Longrightarrow> ?thesis"
    using scheduleOk_frame [of "tick_g s now" s] by (simp add: tick_g_frame)
qed

lemma scheduleOk_run: "scheduleOk s \<Longrightarrow> scheduleOk (run_g s cs)"
  by (induction cs arbitrary: s) (auto simp: scheduleOk_step)

lemma scheduleOk_initApp: "scheduleOk (initApp p now)"
  by (simp add: scheduleOk_def initApp_fields)


lemma pausedInRange_full: "pausedInRange (Num (DURATION * 1000))"
  by (simp add: pausedInRange_def DURATION_def)

lemma timeOk_start:
  assumes "timeOk s t" and "t \<le> now"
  shows "timeOk (startTimer_g s now) now"
proof (cases "running s")
  case True
  with assms show ?thesis by (simp add: startTimer_g_def timeOk_def)
next
  case False
  from assms(1) obtain r where r: "pausedRemainingMs s = Num r" "0 \<le> r" "r \<le> DURATION * 1000"
    by (auto simp: timeOk_def pausedInRange_def split: jsnum.splits)
  then show ?thesis
    by (simp add: timeOk_def pausedInRange_def startTimer_g_fields [OF False])
qed

lemma pauseTimer_g_fields:
  assumes "running s"
  shows "\<not> running (pauseTimer_g s now)"
    and "pausedRemainingMs (pauseTimer_g s now) = Num (max 0 (endTimeMs s - now))"
    and "endTimeMs (pauseTimer_g s now) = endTimeMs s"
    and "intervalId (pauseTimer_g s now) = None"
    and "nextHandle (pauseTimer_g s now) = nextHandle s"
    and "muted (pauseTimer_g s now) = muted s"
    and "sessionCount (pauseTimer_g s now) = sessionCount s"
    and "effects (pauseTimer_g s now) = effects s"
    and "timerElement (pauseTimer_g s now) = timerElement s"
    and "toggleBtn (pauseTimer_g s now) = setText ''Resume'' (toggleBtn s)"
    and "restartBtn (pauseTimer_g s now) = restartBtn s"
    and "muteBtn (pauseTimer_g s now) = muteBtn s"
    and "sessionBadge (pauseTimer_g s now) = sessionBadge s"
  using assms
  by (cases "intervalId s"; simp add: pauseTimer_g_def Let_def clearInterval_def)+

lemma timeOk_pause:
  assumes "timeOk s t" and "t \<le> now"
  shows "timeOk (pauseTimer_g s now) now"
proof (cases "running s")
  case False
  with assms show ?thesis by (simp add: pauseTimer_g_def timeOk_def)
next
  case True
  with assms have "endTimeMs s - now \<le> DURATION * 1000" by (simp add: timeOk_def)
  then show ?thesis
    by (simp add: timeOk_def pausedInRange_def pauseTimer_g_fields [OF True] DURATION_def)
qed

lemma tick_g_endTime:
  "endTimeMs (tick_g s now) = endTimeMs s \<or> endTimeMs (tick_g s now) = now + DURATION * 1000"
  by (simp add: tick_g_def onFinish_g_def Let_def playChime_def triggerVibration_def
      setEndFromNow_def)

lemma timeOk_tick:
  assumes "timeOk s t" and "t \<le> now"
  shows "timeOk (tick_g s now) now"
  using assms tick_g_endTime [of s now]
  by (auto simp: timeOk_def tick_g_frame)

lemma restartTimer_g_endTime:
  "endTimeMs (restartTimer_g s now) = (if running s then now + DURATION * 1000 else endTimeMs s)"
  by (simp add: restartTimer_g_def tick_g_def setEndFromNow_def Let_def DURATION_def)

lemma timeOk_restart: "timeOk (restartTimer_g s now) now"
  by (simp add: timeOk_def restartTimer_g_frame restartTimer_g_endTime pausedInRange_full)

lemma timeOk_mute:
  assumes "timeOk s t" and "t \<le> now"
  shows "timeOk (toggleMute_g s) now"
  using assms by (auto simp: timeOk_def toggleMute_g_frame)

lemma timeOk_later: "timeOk s t \<Longrightarrow> t \<le> now \<Longrightarrow> timeOk s now"
  by (auto simp: timeOk_def)

lemma timeOk_step:
  assumes "timeOk s t" and "t \<le> now"
  shows "timeOk (step_g c s now) now"
proof (cases c)
  case Start
  then show ?thesis using assms by (simp add: timeOk_start)
next
  case Pause
  then show ?thesis using assms by (simp add: timeOk_pause)
next
  case Toggle
  then show ?thesis using assms by (simp add: toggleTimer_g_def timeOk_start timeOk_pause)
next
  case Restart
  then show ?thesis by (simp add: timeOk_restart)
next
  case Mute
  then show ?thesis using assms by (simp add: timeOk_mute)
next
  case Tick
  then show ?thesis using assms by (simp add: timeOk_tick timeOk_later)
qed

lemma timeOk_run:
  "timeOk s t \<Longrightarrow> monotone t cs \<Longrightarrow> timeOk (run_g s cs) (lastInstant t cs)"
proof (induction cs arbitrary: s t)
  case Nil
  then show ?case by simp
next
  case (Cons a cs)
  obtain c now where a: "a = (c, now)" by (cases a)
  with Cons.prems have "timeOk (step_g c s now) now" "monotone now cs"
    by (simp_all add: timeOk_step)
  then have "timeOk (run_g (step_g c s now) cs) (lastInstant now cs)"
    by (rule Cons.IH)
  with a show ?case by simp
qed

lemma storedInRange_paused:
  "storedInRange p \<Longrightarrow>
   pausedInRange (if truthy (stored p ''shanti_paused_remaining'')
       then parseInt (the (stored p ''shanti_paused_remaining'')) else Num (DURATION * 1000))"
  by (auto simp: storedInRange_def truthy_def pausedInRange_full split: option.splits)

lemma timeOk_initApp: "storedInRange p \<Longrightarrow> timeOk (initApp p now) now"
proof -
  assume "storedInRange p"
  then have r: "pausedInRange (pausedRemainingMs (initApp p now))"
    by (simp only: initApp_fields(3) storedInRange_paused)
  then obtain n where n: "pausedRemainingMs (initApp p now) = Num n" "0 \<le> n" "n \<le> DURATION * 1000"
    by (auto simp: pausedInRange_def split: jsnum.splits)
  have "endTimeMs (initApp p now) \<le> now + DURATION * 1000"
    by (subst initApp_fields(2)) (simp add: n)
  with r show ?thesis by (simp add: timeOk_def)
qed


lemma complete_start: "complete (startTimer_g s now) = complete s"
proof (cases "running s")
  case True
  then show ?thesis by (simp add: startTimer_g_def)
next
  case False
  then show ?thesis
    by (simp add: complete_def startTimer_g_fields [OF False] setText_None del: not_None_eq)
qed

lemma complete_pause: "complete (pauseTimer_g s now) = complete s"
proof (cases "running s")
  case False
  then show ?thesis by (simp add: pauseTimer_g_def)
next
  case True
  then show ?thesis
    by (simp add: complete_def pauseTimer_g_fields [OF True] setText_None del: not_None_eq)
qed

lemma tick_g_elements:
  "(timerElement (tick_g s now) = None) = (timerElement s = None)"
  "toggleBtn (tick_g s now) = toggleBtn s" "restartBtn (tick_g s now) = restartBtn s"
  "muteBtn (tick_g s now) = muteBtn s"
  "(sessionBadge (tick_g s now) = None) = (sessionBadge s = None)"
  by (simp_all add: tick_g_def onFinish_g_def Let_def playChime_def triggerVibration_def
      setEndFromNow_def setText_None del: not_None_eq toString.simps msToMMSS.simps)

lemma complete_tick: "complete (tick_g s now) = complete s"
  by (simp add: complete_def tick_g_elements del: not_None_eq)

lemma complete_restart: "complete (restartTimer_g s now) = complete s"
  by (simp add: complete_def restartTimer_g_def Let_def tick_g_elements setEndFromNow_def
      setText_None del: not_None_eq toString.simps msToMMSS.simps)

lemma complete_mute: "complete (toggleMute_g s) = complete s"
  by (simp add: complete_def toggleMute_g_def Let_def setText_None del: not_None_eq)

lemma complete_step: "complete (step_g c s now) = complete s"
  by (cases c)
     (simp_all add: complete_start complete_pause complete_tick complete_restart complete_mute
        toggleTimer_g_def)

lemma step_agree: "complete s \<Longrightarrow> step c s now = Inr (step_g c s now)"
  by (cases c)
     (simp_all add: complete_def startTimer_agree pauseTimer_agree toggleTimer_agree
        restartTimer_agree toggleMute_agree tick_agree del: not_None_eq)

lemma run_agree: "complete s \<Longrightarrow> run s cs = Inr (run_g s cs)"
proof (induction cs arbitrary: s)
  case Nil
  then show ?case by simp
next
  case (Cons a cs)
  obtain c now where a: "a = (c, now)" by (cases a)
  from Cons.prems have "complete (step_g c s now)" by (simp add: complete_step)
  then have "run (step_g c s now) cs = Inr (run_g (step_g c s now) cs)" by (rule Cons.IH)
  with Cons.prems a show ?case by (simp add: step_agree)
qed


lemma js_init:
  fixes p :: page
  assumes "completePage p"
  defines "R \<equiv> restorePausedRemaining_g (stored p ''shanti_paused_remaining'')
     (restoreSessionCount_g (stored p ''shanti_session_count'')
       (restoreMuted_g (stored p ''shanti_muted'') (boot p)))"
  defines "R' \<equiv> if stored p ''shanti_running'' \<noteq> Some ''1''
       \<and> truthy (stored p ''shanti_paused_remaining'')
     then R\<lparr> running := False, toggleBtn := Some ''Resume'' \<rparr> else R"
  shows "onDOMContentLoaded p now =
    Inr (if stored p ''shanti_running'' = Some ''0'' then R' else startTimer_g R' now)"
proof -
  let ?m = "stored p ''shanti_muted''" and ?c = "stored p ''shanti_session_count''"
  let ?r = "stored p ''shanti_paused_remaining''" and ?g = "stored p ''shanti_running''"
  let ?s1 = "restoreMuted_g ?m (boot p)"
  let ?s2 = "restoreSessionCount_g ?c ?s1"
  have c0: "complete (boot p)" using assms(1) by (rule complete_boot)
  then have c1: "complete ?s1" by (simp add: complete_restoreMuted_g)
  then have c2: "complete ?s2" by (simp add: complete_restoreSessionCount_g)
  then have c3: "complete R" by (simp add: R_def complete_restorePausedRemaining_g)
  have nr: "\<not> running R" unfolding R_def by (rule restored_fields(1))
  have e1: "restoreMuted ?m (boot p) = Inr ?s1"
    using c0 by (simp add: restoreMuted_agree complete_def del: not_None_eq)
  have e2: "restoreSessionCount ?c ?s1 = Inr ?s2"
    using c1 by (simp add: restoreSessionCount_agree complete_def del: not_None_eq)
  have e3: "restorePausedRemaining ?r ?s2 = Inr R"
    using c2 by (simp add: R_def restorePausedRemaining_agree complete_def del: not_None_eq)
  have tb: "toggleBtn R \<noteq> None" "restartBtn R" "muteBtn R \<noteq> None"
    using c3 by (simp_all add: complete_def del: not_None_eq)
  have c4: "complete R'"
    using c3 by (simp add: R'_def complete_def del: not_None_eq)
  have nr': "\<not> running R'" using nr by (simp add: R'_def)
  have e4: "startOrRestore ?g ?r now R =
      Inr (if ?g = Some ''1'' then startTimer_g R now else R')"
    using tb(1) by (auto simp: startOrRestore_def startTimer_agree R'_def assignText_def)
  have e5: "addListeners s = Inr s" if "complete s" for s
    using that by (simp add: addListeners_def complete_def del: not_None_eq)
  have e6: "autoStart ?g now s = Inr (if ?g \<noteq> Some ''0'' then startTimer_g s now else s)"
    if "complete s" for s
    using that by (simp add: autoStart_def startTimer_agree complete_def del: not_None_eq)
  let ?s4 = "if ?g = Some ''1'' then startTimer_g R now else R'"
  have c5: "complete ?s4" using c3 c4 by (simp add: complete_start)
  have "onDOMContentLoaded p now = Inr (if ?g \<noteq> Some ''0'' then startTimer_g ?s4 now else ?s4)"
    unfolding onDOMContentLoaded_def Let_def e1 bindE_Inr e2 e3 e4
    by (simp only: e5 [OF c5] e6 [OF c5] bindE_Inr)
  also have "(if ?g \<noteq> Some ''0'' then startTimer_g ?s4 now else ?s4) =
      (if ?g = Some ''0'' then R' else startTimer_g R' now)"
  proof (cases "?g = Some ''1''")
    case True
    have "running (startTimer_g R now)" using nr by (rule startTimer_g_fields(1))
    then have "startTimer_g (startTimer_g R now) now = startTimer_g R now"
      by (simp add: startTimer_g_def)
    with True show ?thesis by (simp add: R'_def)
  next
    case False
    then show ?thesis by simp
  qed
  finally show ?thesis .
qed

lemma js_init_started:
  assumes "completePage p" and "stored p ''shanti_running'' \<noteq> Some ''0''"
  shows "onDOMContentLoaded p now = Inr (initApp p now)"
proof -
  define R where "R = restorePausedRemaining_g (stored p ''shanti_paused_remaining'')
     (restoreSessionCount_g (stored p ''shanti_session_count'')
       (restoreMuted_g (stored p ''shanti_muted'') (boot p)))"
  have nr: "\<not> running R" and id: "intervalId R = None"
    unfolding R_def by (rule restored_fields)+
  have "complete R" using assms(1) by (simp add: R_def restored_fields)
  then obtain b where b: "toggleBtn R = Some b" by (auto simp: complete_def)
  have same: "startTimer_g (R\<lparr> running := False, toggleBtn := Some t \<rparr>) now = startTimer_g R now"
    for t
    using nr id b
    by (simp add: startTimer_g_unfold setEnd_fields(1) clearExisting_fields(2) setText_def)
  have "initApp p now = startTimer_g R now"
    using same [of "''Pause''"] b
    by (simp add: initApp_def Let_def R_def [symmetric] setText_def)
  moreover have "onDOMContentLoaded p now = Inr (startTimer_g R now)"
    using assms same [of "''Resume''"] by (simp add: js_init R_def [symmetric])
  ultimately show ?thesis by simp
qed

lemma js_init_paused:
  assumes "completePage p" and "stored p ''shanti_running'' = Some ''0''"
  shows "\<exists>s. onDOMContentLoaded p now = Inr s \<and> \<not> running s \<and> intervalId s = None
    \<and> intervals s = [] \<and> nextHandle s = 1 \<and> effects s = [] \<and> endTimeMs s = 0
    \<and> localStorage s = stored p \<and> complete s
    \<and> muted s = (stored p ''shanti_muted'' = Some ''true'')
    \<and> sessionCount s = (if truthy (stored p ''shanti_session_count'')
           then parseInt (the (stored p ''shanti_session_count'')) else Num 0)
    \<and> pausedRemainingMs s = (if truthy (stored p ''shanti_paused_remaining'')
           then parseInt (the (stored p ''shanti_paused_remaining'')) else Num (DURATION * 1000))
    \<and> timerElement s = (if truthy (stored p ''shanti_paused_remaining'')
           then setText (msToMMSS (parseInt (the (stored p ''shanti_paused_remaining''))))
             (pageTimer p) else pageTimer p)
    \<and> sessionBadge s = (if truthy (stored p ''shanti_session_count'')
           then setText (''Cycles: '' @ toString (parseInt (the (stored p ''shanti_session_count''))))
             (pageSessionBadge p) else pageSessionBadge p)"
  using assms
  by (simp add: js_init restored_fields complete_def completePage_def setText_None
      restored_fields(16) [unfolded complete_def]
      del: not_None_eq toString.simps msToMMSS.simps)

section \<open>Evaluating the model on examples\<close>

lemmas eval_defs =
  initApp_def boot_def examplePage_def restoreMuted_g_def restoreSessionCount_g_def
  restorePausedRemaining_g_def startTimer_g_def pauseTimer_g_def toggleTimer_g_def
  restartTimer_g_def toggleMute_g_def tick_g_def onFinish_g_def
  setEnd_def setEndFromNow_def clearExisting_def clearInterval_def setInterval_def
  setText_def truthy_def playChime_def triggerVibration_def DURATION_def Let_def
  boolToString_def

lemmas eval_num_defs =
  parseInt_def isWhite_def isDigit_def parseDigits_def digitValue_def
  totalSeconds_div padStart2_def dec.simps digit_def

lemma parse_30000: "parseInt ''30000'' = Num 30000"
  by (simp add: eval_num_defs)

lemma parse_7: "parseInt ''7'' = Num 7"
  by (simp add: eval_num_defs)

lemma show_30000: "msToMMSS (Num 30000) = ''00:30''"
  by (simp add: eval_num_defs)

lemma examplePage_stored: "stored (examplePage kvs) = map_of kvs"
  by (simp add: examplePage_def)

lemma examplePage_complete: "completePage (examplePage kvs)"
  by (simp add: examplePage_def completePage_def)

lemma parse_abc: "parseInt ''abc'' = NaN" "parseInt ''xyz'' = NaN"
  by (simp_all add: eval_num_defs)

lemma show_NaN: "msToMMSS NaN = ''NaN:NaN''"
  by (simp add: padStart2_def)

lemma step_g_count_NaN: "sessionCount s = NaN \<Longrightarrow> sessionCount (step_g c s now) = NaN"
proof (cases c)
  case Start
  assume "sessionCount s = NaN"
  with Start show ?thesis
    by (cases "running s") (simp_all add: startTimer_g_fields, simp add: startTimer_g_def)
next
  case Pause
  assume "sessionCount s = NaN"
  with Pause show ?thesis
    by (cases "running s") (simp_all add: pauseTimer_g_fields, simp add: pauseTimer_g_def)
next
  case Toggle
  assume "sessionCount s = NaN"
  with Toggle show ?thesis
    by (cases "running s")
       (simp_all add: toggleTimer_g_def pauseTimer_g_fields startTimer_g_fields)
next
  case Restart
  assume "sessionCount s = NaN"
  with Restart show ?thesis
    by (simp add: restartTimer_g_def tick_g_def onFinish_g_def Let_def playChime_def
        triggerVibration_def setEndFromNow_def del: toString.simps msToMMSS.simps)
next
  case Mute
  assume "sessionCount s = NaN"
  with Mute show ?thesis by (simp add: toggleMute_g_def Let_def)
next
  case Tick
  assume "sessionCount s = NaN"
  with Tick show ?thesis
    by (simp add: tick_g_def onFinish_g_def Let_def playChime_def
        triggerVibration_def setEndFromNow_def del: toString.simps msToMMSS.simps)
qed

lemma run_g_count_NaN: "sessionCount s = NaN \<Longrightarrow> sessionCount (run_g s cs) = NaN"
  by (induction cs arbitrary: s) (auto simp: step_g_count_NaN)

lemma js_init_common:
  assumes "completePage p"
  shows "\<exists>s. onDOMContentLoaded p now = Inr s \<and> complete s \<and> scheduleOk s
    \<and> running s = (stored p ''shanti_running'' \<noteq> Some ''0'')
    \<and> (running s \<longrightarrow> s = initApp p now)
    \<and> muted s = muted (initApp p now)
    \<and> sessionCount s = sessionCount (initApp p now)
    \<and> pausedRemainingMs s = pausedRemainingMs (initApp p now)
    \<and> timerElement s = timerElement (initApp p now)
    \<and> sessionBadge s = sessionBadge (initApp p now)"
proof (cases "stored p ''shanti_running'' = Some ''0''")
  case True
  from js_init_paused [OF assms True, of now] obtain s where
    s: "onDOMContentLoaded p now = Inr s \<and> \<not> running s \<and> intervalId s = None
    \<and> intervals s = [] \<and> nextHandle s = 1 \<and> effects s = [] \<and> endTimeMs s = 0
    \<and> localStorage s = stored p \<and> complete s
    \<and> muted s = (stored p ''shanti_muted'' = Some ''true'')
    \<and> sessionCount s = (if truthy (stored p ''shanti_session_count'')
           then parseInt (the (stored p ''shanti_session_count'')) else Num 0)
    \<and> pausedRemainingMs s = (if truthy (stored p ''shanti_paused_remaining'')
           then parseInt (the (stored p ''shanti_paused_remaining'')) else Num (DURATION * 1000))
    \<and> timerElement s = (if truthy (stored p ''shanti_paused_remaining'')
           then setText (msToMMSS (parseInt (the (stored p ''shanti_paused_remaining''))))
             (pageTimer p) else pageTimer p)
    \<and> sessionBadge s = (if truthy (stored p ''shanti_session_count'')
           then setText (''Cycles: '' @ toString (parseInt (the (stored p ''shanti_session_count''))))
             (pageSessionBadge p) else pageSessionBadge p)"
    by blast
  then have "scheduleOk s" by (simp add: scheduleOk_def)
  with s True show ?thesis
    by (intro exI [of _ s]) (simp add: initApp_fields del: toString.simps msToMMSS.simps)
next
  case False
  with assms have "onDOMContentLoaded p now = Inr (initApp p now)"
    by (rule js_init_started)
  with False assms show ?thesis
    by (simp add: initApp_fields(1,13) scheduleOk_initApp)
qed

lemma parse_90000: "parseInt ''90000'' = Num 90000"
  by (simp add: eval_num_defs)

lemma js_init_timeOk:
  assumes "completePage p" and "storedInRange p"
  shows "\<exists>s. onDOMContentLoaded p now = Inr s \<and> complete s \<and> scheduleOk s \<and> timeOk s now"
proof -
  from js_init_common [OF assms(1), of now] obtain s where
    s: "onDOMContentLoaded p now = Inr s" "complete s" "scheduleOk s"
      "running s \<longrightarrow> s = initApp p now"
      "pausedRemainingMs s = pausedRemainingMs (initApp p now)"
    by blast
  have t: "timeOk (initApp p now) now" using assms(2) by (rule timeOk_initApp)
  have "timeOk s now"
  proof (cases "running s")
    case True
    with s(4) t show ?thesis by simp
  next
    case False
    with t s(5) show ?thesis by (simp add: timeOk_def)
  qed
  with s(1,2,3) show ?thesis by blast
qed

lemma chime_vibration:
  "triggerVibration (playChime s) = s\<lparr> effects := effects s
      @ (if muted s \<or> \<not> audioContext s then [] else [Chime])
      @ (if muted s \<or> \<not> canVibrate s then [] else [Vibrate]) \<rparr>"
  by (simp add: playChime_def triggerVibration_def)

lemma onFinish_g_unfold:
  "timerElement s \<noteq> None \<Longrightarrow>
   onFinish_g s now = s\<lparr> timerElement := Some ''00:00'',
      effects := effects s @ [Announce]
        @ (if muted s \<or> \<not> audioContext s then [] else [Chime])
        @ (if muted s \<or> \<not> canVibrate s then [] else [Vibrate]),
      sessionCount := increment (sessionCount s),
      sessionBadge := setText (''Cycles: '' @ toString (increment (sessionCount s))) (sessionBadge s),
      localStorage := (localStorage s)
        (''shanti_session_count'' \<mapsto> toString (increment (sessionCount s))),
      endTimeMs := now + DURATION * 1000 \<rparr>"
  by (simp add: onFinish_g_def Let_def chime_vibration setEndFromNow_def
      del: toString.simps not_None_eq)

lemma tick_g_ignores_paused:
  "tick_g (s\<lparr> pausedRemainingMs := x \<rparr>) now = (tick_g s now)\<lparr> pausedRemainingMs := x \<rparr>"
proof (cases "timerElement s = None")
  case True
  then show ?thesis by (simp add: tick_g_def onFinish_g_def Let_def setText_def)
next
  case False
  then show ?thesis
    by (simp add: tick_g_def Let_def onFinish_g_unfold del: toString.simps msToMMSS.simps)
qed

lemma startTimer_g_ignores_end:
  "\<not> running s \<Longrightarrow> startTimer_g (s\<lparr> endTimeMs := e \<rparr>) now = startTimer_g s now"
proof -
  assume nr: "\<not> running s"
  have i: "intervals (clearExisting (s\<lparr> endTimeMs := e \<rparr>)) = intervals (clearExisting s)"
    by (cases "intervalId s") (simp_all add: clearExisting_def clearInterval_def)
  from nr show ?thesis
    by (simp add: startTimer_g_unfold setEnd_fields(1) i)
qed





section \<open>Claims\<close>

text \<open>
  C6. \<^verbatim>\<open>msToMMSS(ms)\<close> shows \<open>t = ceil(max(0, ms) / 1000)\<close> seconds as the minutes
  \<open>floor(t / 60)\<close> and the seconds \<open>t mod 60\<close>, a colon between them, each padded with
  zeros to two digits: the seconds are always exactly two decimal digits, the minutes are
  two digits below 100 minutes and never fewer. It gives \<^verbatim>\<open>00:00\<close> at 0,
  \<^verbatim>\<open>00:01\<close> at 1, \<^verbatim>\<open>01:00\<close> at 60000 and \<^verbatim>\<open>00:00\<close> at -5; and from 1 ms on
  the value shown is at least one second, never \<^verbatim>\<open>00:00\<close>.
\<close>

theorem msToMMSS_format:
  "(let t = \<lceil>real_of_int (max 0 ms) / 1000\<rceil>; m = nat (t div 60); s = nat (t mod 60)
    in msToMMSS (Num ms) = padStart2 (dec m) @ '':'' @ padStart2 (dec s)
       \<and> padStart2 (dec s) = [digit (s div 10), digit (s mod 10)]
       \<and> 2 \<le> length (padStart2 (dec m))
       \<and> (m < 100 \<longrightarrow> padStart2 (dec m) = [digit (m div 10), digit (m mod 10)])
       \<and> (1 \<le> ms \<longrightarrow> 1 \<le> t \<and> msToMMSS (Num ms) \<noteq> ''00:00''))
   \<and> msToMMSS (Num 0) = ''00:00'' \<and> msToMMSS (Num 1) = ''00:01''
   \<and> msToMMSS (Num 60000) = ''01:00'' \<and> msToMMSS (Num (- 5)) = ''00:00''"
proof -
  define t where "t = \<lceil>real_of_int (max 0 ms) / 1000\<rceil>"
  define m where "m = nat (t div 60)"
  define s where "s = nat (t mod 60)"
  have ts: "totalSeconds ms = t" by (simp add: totalSeconds_def t_def)
  have fmt: "msToMMSS (Num ms) = padStart2 (dec m) @ '':'' @ padStart2 (dec s)"
    unfolding msToMMSS_parts ts m_def s_def by (rule refl)
  have "s < 60" by (simp add: s_def nat_less_iff)
  then have sec: "padStart2 (dec s) = [digit (s div 10), digit (s mod 10)]"
    by (simp add: dec_two_digits)
  have len: "2 \<le> length (padStart2 (dec m))"
    by (simp add: padStart2_def)
  have mins: "m < 100 \<longrightarrow> padStart2 (dec m) = [digit (m div 10), digit (m mod 10)]"
    by (simp add: dec_two_digits)
  have pos: "1 \<le> ms \<longrightarrow> 1 \<le> t \<and> msToMMSS (Num ms) \<noteq> ''00:00''"
    using msToMMSS_nonzero [of ms] by (simp add: t_def del: msToMMSS.simps)
  have ex: "msToMMSS (Num 0) = ''00:00''" "msToMMSS (Num 1) = ''00:01''"
    "msToMMSS (Num 60000) = ''01:00''" "msToMMSS (Num (- 5)) = ''00:00''"
    by (simp_all add: totalSeconds_div padStart2_def dec.simps digit_def)
  show ?thesis
    using fmt sec len mins pos ex
    unfolding Let_def t_def [symmetric] m_def [symmetric] s_def [symmetric]
    by blast
qed

theorem msToMMSS_format_witness:
  "(1::int) \<le> 1500 \<and> nat (\<lceil>real_of_int (max 0 1500) / 1000\<rceil> div 60) < 100
   \<and> msToMMSS (Num 1500) \<noteq> ''00:00'' \<and> msToMMSS (Num 1500) = ''00:02''"
proof -
  have h: "(1::int) \<le> 1500" by simp
  have e: "msToMMSS (Num 1500) = ''00:02''"
    by (simp add: totalSeconds_div padStart2_def dec.simps digit_def)
  have "msToMMSS (Num 1500) \<noteq> ''00:00''"
    using msToMMSS_format [of 1500] h unfolding Let_def by blast
  with h e show ?thesis by simp
qed




text \<open>
  C2. \<^verbatim>\<open>startTimer\<close> changes nothing when the timer is running. Otherwise the timer
  is running afterwards; \<^verbatim>\<open>endTimeMs\<close> is \<open>now + pausedRemainingMs\<close> when
  \<^verbatim>\<open>pausedRemainingMs\<close> lies strictly between 0 and the cycle length, and
  \<open>now + DURATION * 1000\<close> otherwise; a fresh interval is scheduled; and the store holds
  \<^verbatim>\<open>shanti_running = "1"\<close> and no \<^verbatim>\<open>shanti_paused_remaining\<close>.
\<close>

theorem startTimer_spec:
  "(running s \<longrightarrow> startTimer_g s now = s \<and> startTimer s now = Inr s)
   \<and> (\<not> running s \<longrightarrow>
        (let s' = startTimer_g s now in
           running s'
         \<and> endTimeMs s' =
             (case pausedRemainingMs s of
                Num r \<Rightarrow> if 0 < r \<and> r < DURATION * 1000 then now + r else now + DURATION * 1000
              | NaN \<Rightarrow> now + DURATION * 1000)
         \<and> pausedRemainingMs s' = pausedRemainingMs s
         \<and> intervalId s' = Some (nextHandle s) \<and> nextHandle s \<in> set (intervals s')
         \<and> localStorage s' ''shanti_running'' = Some ''1''
         \<and> localStorage s' ''shanti_paused_remaining'' = None
         \<and> (toggleBtn s \<noteq> None \<longrightarrow> startTimer s now = Inr s')))"
proof -
  have "startTimer_g s now = s \<and> startTimer s now = Inr s" if "running s"
    using that by (simp add: startTimer_g_def startTimer_def)
  moreover have "(let s' = startTimer_g s now in
           running s'
         \<and> endTimeMs s' =
             (case pausedRemainingMs s of
                Num r \<Rightarrow> if 0 < r \<and> r < DURATION * 1000 then now + r else now + DURATION * 1000
              | NaN \<Rightarrow> now + DURATION * 1000)
         \<and> pausedRemainingMs s' = pausedRemainingMs s
         \<and> intervalId s' = Some (nextHandle s) \<and> nextHandle s \<in> set (intervals s')
         \<and> localStorage s' ''shanti_running'' = Some ''1''
         \<and> localStorage s' ''shanti_paused_remaining'' = None
         \<and> (toggleBtn s \<noteq> None \<longrightarrow> startTimer s now = Inr s'))" if "\<not> running s"
    unfolding Let_def
    using that
    by (auto simp: startTimer_agree)
       (auto simp: startTimer_g_def Let_def setEnd_def setEndFromNow_def clearExisting_def
          clearInterval_def setInterval_def split: jsnum.splits option.splits)
  ultimately show ?thesis by blast
qed

theorem startTimer_spec_witness:
  "\<not> running (pauseTimer_g (initApp (examplePage []) 1000) 21000)
   \<and> pausedRemainingMs (pauseTimer_g (initApp (examplePage []) 1000) 21000) = Num 40000
   \<and> endTimeMs (startTimer_g (pauseTimer_g (initApp (examplePage []) 1000) 21000) 50000) = 90000
   \<and> running (initApp (examplePage []) 1000)
   \<and> startTimer_g (initApp (examplePage []) 1000) 5000 = initApp (examplePage []) 1000
   \<and> toggleBtn (pauseTimer_g (initApp (examplePage []) 1000) 21000) \<noteq> None
   \<and> startTimer (pauseTimer_g (initApp (examplePage []) 1000) 21000) 50000
       = Inr (startTimer_g (pauseTimer_g (initApp (examplePage []) 1000) 21000) 50000)"
proof -
  define s where "s = pauseTimer_g (initApp (examplePage []) 1000) 21000"
  have h1: "\<not> running s" and h2: "pausedRemainingMs s = Num 40000"
    and h3: "toggleBtn s \<noteq> None"
    by (simp_all add: s_def eval_defs)
  have h4: "running (initApp (examplePage []) 1000)"
    by (simp add: eval_defs)
  show ?thesis
    using startTimer_spec [of s 50000] startTimer_spec [of "initApp (examplePage []) 1000" 5000]
      h1 h2 h3 h4
    unfolding s_def [symmetric] by (simp add: Let_def DURATION_def)
qed

text \<open>
  C3. \<^verbatim>\<open>pauseTimer\<close> changes nothing when the timer is paused. Otherwise it takes the
  interval of \<^verbatim>\<open>intervalId\<close> off the schedule and forgets the handle, sets
  \<^verbatim>\<open>pausedRemainingMs\<close> to \<open>max 0 (endTimeMs - now)\<close>, leaves the timer paused, and
  writes \<^verbatim>\<open>shanti_running = "0"\<close> and the new \<^verbatim>\<open>shanti_paused_remaining\<close> to the
  store.
\<close>

theorem pauseTimer_spec:
  "(\<not> running s \<longrightarrow> pauseTimer_g s now = s \<and> pauseTimer s now = Inr s)
   \<and> (running s \<longrightarrow>
        (let s' = pauseTimer_g s now in
           \<not> running s'
         \<and> pausedRemainingMs s' = Num (max 0 (endTimeMs s - now))
         \<and> intervalId s' = None
         \<and> (\<forall>h. intervalId s = Some h \<longrightarrow> intervals s' = removeAll h (intervals s))
         \<and> endTimeMs s' = endTimeMs s
         \<and> localStorage s' ''shanti_running'' = Some ''0''
         \<and> localStorage s' ''shanti_paused_remaining''
             = Some (toString (Num (max 0 (endTimeMs s - now))))
         \<and> (toggleBtn s \<noteq> None \<longrightarrow> pauseTimer s now = Inr s')))"
proof -
  have "pauseTimer_g s now = s \<and> pauseTimer s now = Inr s" if "\<not> running s"
    using that by (simp add: pauseTimer_g_def pauseTimer_def)
  moreover have "(let s' = pauseTimer_g s now in
           \<not> running s'
         \<and> pausedRemainingMs s' = Num (max 0 (endTimeMs s - now))
         \<and> intervalId s' = None
         \<and> (\<forall>h. intervalId s = Some h \<longrightarrow> intervals s' = removeAll h (intervals s))
         \<and> endTimeMs s' = endTimeMs s
         \<and> localStorage s' ''shanti_running'' = Some ''0''
         \<and> localStorage s' ''shanti_paused_remaining''
             = Some (toString (Num (max 0 (endTimeMs s - now))))
         \<and> (toggleBtn s \<noteq> None \<longrightarrow> pauseTimer s now = Inr s'))" if "running s"
    unfolding Let_def
    using that
    by (auto simp: pauseTimer_agree)
       (auto simp: pauseTimer_g_def Let_def clearInterval_def split: option.splits)
  ultimately show ?thesis by blast
qed

theorem pauseTimer_spec_witness:
  "running (initApp (examplePage []) 1000)
   \<and> intervalId (initApp (examplePage []) 1000) = Some 1
   \<and> \<not> running (pauseTimer_g (initApp (examplePage []) 1000) 21000)
   \<and> pausedRemainingMs (pauseTimer_g (initApp (examplePage []) 1000) 21000) = Num 40000
   \<and> intervals (pauseTimer_g (initApp (examplePage []) 1000) 21000) = []
   \<and> localStorage (pauseTimer_g (initApp (examplePage []) 1000) 21000)
        ''shanti_paused_remaining'' = Some ''40000''
   \<and> pauseTimer_g (pauseTimer_g (initApp (examplePage []) 1000) 21000) 30000
       = pauseTimer_g (initApp (examplePage []) 1000) 21000"
proof -
  define s where "s = initApp (examplePage []) 1000"
  define s' where "s' = pauseTimer_g s 21000"
  have h1: "running s" and h2: "intervalId s = Some 1" and h3: "endTimeMs s = 61000"
    and h4: "intervals s = [1]"
    by (simp_all add: s_def eval_defs)
  have t: "toString (Num 40000) = ''40000''"
    by (simp add: dec.simps digit_def)
  have a: "\<not> running s'" "pausedRemainingMs s' = Num 40000" "intervals s' = []"
    "localStorage s' ''shanti_paused_remaining'' = Some ''40000''"
    using pauseTimer_spec [of s 21000] h1 h2 h3 h4 t
    unfolding s'_def [symmetric] Let_def by simp_all
  have "pauseTimer_g s' 30000 = s'"
    using pauseTimer_spec [of s' 30000] a(1) by simp
  with a h1 h2 show ?thesis
    unfolding s'_def s_def by simp
qed





text \<open>
  C4. A store that holds \<^verbatim>\<open>running = "0"\<close>, 30000 ms left, \<^verbatim>\<open>muted = "true"\<close> and
  7 cycles. The claim that initialisation gives a paused timer fails for
  \<^verbatim>\<open>initApp\<close>, which starts the timer whatever \<^verbatim>\<open>shanti_running\<close> holds:
\<close>

theorem restore_paused_snapshot_counterexample:
  "running (initApp (examplePage pausedSnapshot) 1000)
   \<and> endTimeMs (initApp (examplePage pausedSnapshot) 1000) = 31000"
proof -
  have "pausedRemainingMs (initApp (examplePage pausedSnapshot) 1000) = Num 30000"
    by (simp add: initApp_fields(3) examplePage_stored pausedSnapshot_def truthy_def parse_30000)
  then have "endTimeMs (initApp (examplePage pausedSnapshot) 1000) = 31000"
    by (subst initApp_fields(2)) (simp add: DURATION_def)
  then show ?thesis by (simp add: initApp_fields(1))
qed

text \<open>
  C4, as the code has it. The \<^verbatim>\<open>DOMContentLoaded\<close> handler of script.js gives the
  snapshot back: paused, 30000 ms left (shown as \<^verbatim>\<open>00:30\<close>), muted, 7 cycles, nothing
  scheduled and the store untouched. \<^verbatim>\<open>initApp\<close> restores the time left, the mute flag
  and the 7 cycles too, but resumes at once: the timer is running with
  \<^verbatim>\<open>endTimeMs = now + 30000\<close>, and the store now says so.
\<close>

theorem restore_paused_snapshot:
  assumes "stored p ''shanti_running'' = Some ''0''"
    and "stored p ''shanti_paused_remaining'' = Some ''30000''"
    and "stored p ''shanti_muted'' = Some ''true''"
    and "stored p ''shanti_session_count'' = Some ''7''"
  shows "(completePage p \<longrightarrow>
           (case onDOMContentLoaded p now of
              Inl e \<Rightarrow> False
            | Inr s \<Rightarrow> \<not> running s \<and> pausedRemainingMs s = Num 30000 \<and> muted s
                \<and> sessionCount s = Num 7 \<and> timerElement s = Some ''00:30''
                \<and> sessionBadge s = Some ''Cycles: 7''
                \<and> intervals s = [] \<and> localStorage s = stored p))
       \<and> (let s = initApp p now in
             running s \<and> endTimeMs s = now + 30000 \<and> pausedRemainingMs s = Num 30000
           \<and> muted s \<and> sessionCount s = Num 7 \<and> intervals s = [1]
           \<and> localStorage s ''shanti_running'' = Some ''1''
           \<and> localStorage s ''shanti_paused_remaining'' = None)"
proof -
  have t7: "toString (Num 7) = ''7''" by (simp add: dec.simps digit_def)
  have a: "(case onDOMContentLoaded p now of
              Inl e \<Rightarrow> False
            | Inr s \<Rightarrow> \<not> running s \<and> pausedRemainingMs s = Num 30000 \<and> muted s
                \<and> sessionCount s = Num 7 \<and> timerElement s = Some ''00:30''
                \<and> sessionBadge s = Some ''Cycles: 7''
                \<and> intervals s = [] \<and> localStorage s = stored p)" if c: "completePage p"
  proof -
    from c obtain t b where el: "pageTimer p = Some t" "pageSessionBadge p = Some b"
      by (auto simp: completePage_def)
    from js_init_paused [OF c assms(1), of now] obtain s where
      s: "onDOMContentLoaded p now = Inr s" "\<not> running s" "intervals s = []"
        "localStorage s = stored p" "muted s = (stored p ''shanti_muted'' = Some ''true'')"
        "sessionCount s = (if truthy (stored p ''shanti_session_count'')
           then parseInt (the (stored p ''shanti_session_count'')) else Num 0)"
        "pausedRemainingMs s = (if truthy (stored p ''shanti_paused_remaining'')
           then parseInt (the (stored p ''shanti_paused_remaining'')) else Num (DURATION * 1000))"
        "timerElement s = (if truthy (stored p ''shanti_paused_remaining'')
           then setText (msToMMSS (parseInt (the (stored p ''shanti_paused_remaining''))))
             (pageTimer p) else pageTimer p)"
        "sessionBadge s = (if truthy (stored p ''shanti_session_count'')
           then setText (''Cycles: '' @ toString (parseInt (the (stored p ''shanti_session_count''))))
             (pageSessionBadge p) else pageSessionBadge p)"
      by blast
    show ?thesis
      using s(2-) assms el unfolding s(1)
      by (simp add: truthy_def parse_30000 parse_7 show_30000 t7 setText_def
          del: msToMMSS.simps toString.simps)
  qed
  have r: "pausedRemainingMs (initApp p now) = Num 30000"
    using assms(2) by (simp add: initApp_fields(3) truthy_def parse_30000)
  have e: "endTimeMs (initApp p now) = now + 30000"
    by (subst initApp_fields(2)) (simp add: r DURATION_def)
  have c: "sessionCount (initApp p now) = Num 7"
    using assms(4) by (simp add: initApp_fields(5) truthy_def parse_7)
  have m: "muted (initApp p now)"
    using assms(3) by (simp add: initApp_fields(4))
  have l: "localStorage (initApp p now) ''shanti_running'' = Some ''1''"
    "localStorage (initApp p now) ''shanti_paused_remaining'' = None"
    by (simp_all add: initApp_fields(10))
  show ?thesis
    unfolding Let_def using a r e c m l initApp_fields(1,9) [of p now] by blast
qed

theorem restore_paused_snapshot_witness:
  "stored (examplePage pausedSnapshot) ''shanti_running'' = Some ''0''
   \<and> stored (examplePage pausedSnapshot) ''shanti_paused_remaining'' = Some ''30000''
   \<and> stored (examplePage pausedSnapshot) ''shanti_muted'' = Some ''true''
   \<and> stored (examplePage pausedSnapshot) ''shanti_session_count'' = Some ''7''
   \<and> completePage (examplePage pausedSnapshot)
   \<and> (case onDOMContentLoaded (examplePage pausedSnapshot) 1000 of
         Inl e \<Rightarrow> False
       | Inr s \<Rightarrow> \<not> running s \<and> pausedRemainingMs s = Num 30000 \<and> muted s
           \<and> sessionCount s = Num 7 \<and> timerElement s = Some ''00:30''
           \<and> sessionBadge s = Some ''Cycles: 7''
           \<and> intervals s = [] \<and> localStorage s = stored (examplePage pausedSnapshot))
   \<and> pausedRemainingMs (initApp (examplePage pausedSnapshot) 1000) = Num 30000
   \<and> muted (initApp (examplePage pausedSnapshot) 1000)
   \<and> sessionCount (initApp (examplePage pausedSnapshot) 1000) = Num 7"
proof -
  have h: "stored (examplePage pausedSnapshot) ''shanti_running'' = Some ''0''"
    "stored (examplePage pausedSnapshot) ''shanti_paused_remaining'' = Some ''30000''"
    "stored (examplePage pausedSnapshot) ''shanti_muted'' = Some ''true''"
    "stored (examplePage pausedSnapshot) ''shanti_session_count'' = Some ''7''"
    by (simp_all add: examplePage_stored pausedSnapshot_def)
  have c: "completePage (examplePage pausedSnapshot)"
    by (rule examplePage_complete)
  show ?thesis
    using restore_paused_snapshot [OF h, of 1000] h c unfolding Let_def by blast
qed

text \<open>
  C9. A stored number that is present but does not parse. The claim that initialisation
  then falls back to a cycle count of zero fails: \<^verbatim>\<open>parseInt\<close> gives \<^verbatim>\<open>NaN\<close>, and
  the count is \<^verbatim>\<open>NaN\<close> in both copies.
\<close>

theorem restore_malformed_counterexample:
  "sessionCount (initApp (examplePage malformedSnapshot) 1000) = NaN
   \<and> sessionCount (initApp (examplePage malformedSnapshot) 1000) \<noteq> Num 0
   \<and> (case onDOMContentLoaded (examplePage malformedSnapshot) 1000 of
         Inl e \<Rightarrow> False
       | Inr s \<Rightarrow> sessionCount s = NaN \<and> sessionCount s \<noteq> Num 0
           \<and> pausedRemainingMs s = NaN \<and> \<not> running s)"
proof -
  have h: "stored (examplePage malformedSnapshot) ''shanti_running'' = Some ''0''"
    "stored (examplePage malformedSnapshot) ''shanti_paused_remaining'' = Some ''abc''"
    "stored (examplePage malformedSnapshot) ''shanti_session_count'' = Some ''xyz''"
    by (simp_all add: examplePage_stored malformedSnapshot_def)
  have a: "sessionCount (initApp (examplePage malformedSnapshot) 1000) = NaN"
    by (simp add: initApp_fields(5) h truthy_def parse_abc)
  from js_init_paused [OF examplePage_complete h(1), of 1000] obtain s where
    s: "onDOMContentLoaded (examplePage malformedSnapshot) 1000 = Inr s" "\<not> running s"
      "sessionCount s = (if truthy (stored (examplePage malformedSnapshot) ''shanti_session_count'')
           then parseInt (the (stored (examplePage malformedSnapshot) ''shanti_session_count''))
           else Num 0)"
      "pausedRemainingMs s =
         (if truthy (stored (examplePage malformedSnapshot) ''shanti_paused_remaining'')
          then parseInt (the (stored (examplePage malformedSnapshot) ''shanti_paused_remaining''))
          else Num (DURATION * 1000))"
    by blast
  from s(2-) have "sessionCount s = NaN" "pausedRemainingMs s = NaN"
    by (simp_all add: h truthy_def parse_abc)
  with a s(1,2) show ?thesis by simp
qed

text \<open>
  C9, as the code has it. An unparsable \<^verbatim>\<open>shanti_paused_remaining\<close> is restored as
  \<^verbatim>\<open>NaN\<close>; because \<^verbatim>\<open>startTimer\<close> takes only a value strictly between 0 and the
  cycle length for time left, the timer starts a fresh, full cycle: at once in
  \<^verbatim>\<open>initApp\<close> and in script.js unless \<^verbatim>\<open>shanti_running\<close> is \<^verbatim>\<open>"0"\<close>, in which
  case script.js stays paused, shows \<^verbatim>\<open>NaN:NaN\<close>, and starts the full cycle at the next
  start. An unparsable \<^verbatim>\<open>shanti_session_count\<close> is restored as \<^verbatim>\<open>NaN\<close>, not as
  zero, is shown as \<^verbatim>\<open>Cycles: NaN\<close>, and stays \<^verbatim>\<open>NaN\<close> whatever happens next. The
  mute flag is that of \<^verbatim>\<open>shanti_muted\<close> either way.
\<close>

theorem restore_malformed:
  "(\<forall>x. stored p ''shanti_paused_remaining'' = Some x \<and> x \<noteq> [] \<and> parseInt x = NaN \<longrightarrow>
       (let s = initApp p now in
          pausedRemainingMs s = NaN \<and> running s \<and> endTimeMs s = now + DURATION * 1000)
     \<and> (completePage p \<longrightarrow>
         (case onDOMContentLoaded p now of
            Inl e \<Rightarrow> False
          | Inr s \<Rightarrow> pausedRemainingMs s = NaN
              \<and> (if stored p ''shanti_running'' = Some ''0''
                 then \<not> running s \<and> timerElement s = Some ''NaN:NaN''
                   \<and> (\<forall>t. startTimer s t = Inr (startTimer_g s t)
                          \<and> endTimeMs (startTimer_g s t) = t + DURATION * 1000)
                 else running s \<and> endTimeMs s = now + DURATION * 1000))))
   \<and> (\<forall>y. stored p ''shanti_session_count'' = Some y \<and> y \<noteq> [] \<and> parseInt y = NaN \<longrightarrow>
       (\<forall>cs. sessionCount (run_g (initApp p now) cs) = NaN)
     \<and> (completePage p \<longrightarrow>
         (case onDOMContentLoaded p now of
            Inl e \<Rightarrow> False
          | Inr s \<Rightarrow> sessionCount s = NaN \<and> sessionBadge s = Some ''Cycles: NaN''
              \<and> (\<forall>cs. run s cs = Inr (run_g s cs) \<and> sessionCount (run_g s cs) = NaN))))
   \<and> muted (initApp p now) = (stored p ''shanti_muted'' = Some ''true'')
   \<and> (completePage p \<longrightarrow>
        (case onDOMContentLoaded p now of
           Inl e \<Rightarrow> False
         | Inr s \<Rightarrow> muted s = (stored p ''shanti_muted'' = Some ''true'')))"
proof -
  have A: "(let s = initApp p now in
          pausedRemainingMs s = NaN \<and> running s \<and> endTimeMs s = now + DURATION * 1000)
     \<and> (completePage p \<longrightarrow>
         (case onDOMContentLoaded p now of
            Inl e \<Rightarrow> False
          | Inr s \<Rightarrow> pausedRemainingMs s = NaN
              \<and> (if stored p ''shanti_running'' = Some ''0''
                 then \<not> running s \<and> timerElement s = Some ''NaN:NaN''
                   \<and> (\<forall>t. startTimer s t = Inr (startTimer_g s t)
                          \<and> endTimeMs (startTimer_g s t) = t + DURATION * 1000)
                 else running s \<and> endTimeMs s = now + DURATION * 1000)))"
    if x: "stored p ''shanti_paused_remaining'' = Some x \<and> x \<noteq> [] \<and> parseInt x = NaN" for x
  proof -
    have r: "pausedRemainingMs (initApp p now) = NaN"
      using x by (simp add: initApp_fields(3) truthy_def)
    have e: "endTimeMs (initApp p now) = now + DURATION * 1000"
      by (subst initApp_fields(2)) (simp add: r)
    have t: "completePage p \<Longrightarrow> timerElement (initApp p now) = Some ''NaN:NaN''"
      using x by (auto simp: initApp_fields(11) truthy_def show_NaN completePage_def setText_def
          simp del: msToMMSS.simps)
    have "(case onDOMContentLoaded p now of
            Inl e \<Rightarrow> False
          | Inr s \<Rightarrow> pausedRemainingMs s = NaN
              \<and> (if stored p ''shanti_running'' = Some ''0''
                 then \<not> running s \<and> timerElement s = Some ''NaN:NaN''
                   \<and> (\<forall>t. startTimer s t = Inr (startTimer_g s t)
                          \<and> endTimeMs (startTimer_g s t) = t + DURATION * 1000)
                 else running s \<and> endTimeMs s = now + DURATION * 1000))" if c: "completePage p"
    proof -
      from js_init_common [OF c, of now] obtain s where
        s: "onDOMContentLoaded p now = Inr s" "complete s"
          "running s = (stored p ''shanti_running'' \<noteq> Some ''0'')"
          "running s \<longrightarrow> s = initApp p now"
          "pausedRemainingMs s = pausedRemainingMs (initApp p now)"
          "timerElement s = timerElement (initApp p now)"
        by blast
      have st: "startTimer s t = Inr (startTimer_g s t)" for t
        using s(2) by (simp add: startTimer_agree complete_def del: not_None_eq)
      have en: "endTimeMs (startTimer_g s t) = t + DURATION * 1000" if "\<not> running s" for t
        using that by (simp add: startTimer_g_fields(2) s(5) r)
      show ?thesis
        unfolding s(1) using s(3,4,5,6) r e t [OF c] st en by auto
    qed
    with r e show ?thesis by (simp add: Let_def initApp_fields(1))
  qed
  have B: "(\<forall>cs. sessionCount (run_g (initApp p now) cs) = NaN)
     \<and> (completePage p \<longrightarrow>
         (case onDOMContentLoaded p now of
            Inl e \<Rightarrow> False
          | Inr s \<Rightarrow> sessionCount s = NaN \<and> sessionBadge s = Some ''Cycles: NaN''
              \<and> (\<forall>cs. run s cs = Inr (run_g s cs) \<and> sessionCount (run_g s cs) = NaN)))"
    if y: "stored p ''shanti_session_count'' = Some y \<and> y \<noteq> [] \<and> parseInt y = NaN" for y
  proof -
    have n: "sessionCount (initApp p now) = NaN"
      using y by (simp add: initApp_fields(5) truthy_def)
    have b: "completePage p \<Longrightarrow> sessionBadge (initApp p now) = Some ''Cycles: NaN''"
      using y by (auto simp: initApp_fields(12) truthy_def completePage_def setText_def)
    have "(case onDOMContentLoaded p now of
            Inl e \<Rightarrow> False
          | Inr s \<Rightarrow> sessionCount s = NaN \<and> sessionBadge s = Some ''Cycles: NaN''
              \<and> (\<forall>cs. run s cs = Inr (run_g s cs) \<and> sessionCount (run_g s cs) = NaN))"
      if c: "completePage p"
    proof -
      from js_init_common [OF c, of now] obtain s where
        s: "onDOMContentLoaded p now = Inr s" "complete s"
          "sessionCount s = sessionCount (initApp p now)"
          "sessionBadge s = sessionBadge (initApp p now)"
        by blast
      show ?thesis
        unfolding s(1) using s(2,3,4) n b [OF c] by (simp add: run_agree run_g_count_NaN)
    qed
    with n show ?thesis by (simp add: run_g_count_NaN)
  qed
  have C: "completePage p \<longrightarrow>
        (case onDOMContentLoaded p now of
           Inl e \<Rightarrow> False
         | Inr s \<Rightarrow> muted s = (stored p ''shanti_muted'' = Some ''true''))"
  proof
    assume c: "completePage p"
    from js_init_common [OF c, of now] obtain s where
      s: "onDOMContentLoaded p now = Inr s" "muted s = muted (initApp p now)"
      by blast
    show "case onDOMContentLoaded p now of
           Inl e \<Rightarrow> False
         | Inr s \<Rightarrow> muted s = (stored p ''shanti_muted'' = Some ''true'')"
      unfolding s(1) using s(2) by (simp add: initApp_fields(4))
  qed
  show ?thesis using A B C initApp_fields(4) [of p now] by blast
qed


theorem restore_malformed_witness:
  "stored (examplePage malformedSnapshot) ''shanti_paused_remaining'' = Some ''abc''
   \<and> ''abc'' \<noteq> [] \<and> parseInt ''abc'' = NaN
   \<and> stored (examplePage malformedSnapshot) ''shanti_session_count'' = Some ''xyz''
   \<and> ''xyz'' \<noteq> [] \<and> parseInt ''xyz'' = NaN
   \<and> completePage (examplePage malformedSnapshot)
   \<and> pausedRemainingMs (initApp (examplePage malformedSnapshot) 1000) = NaN
   \<and> endTimeMs (initApp (examplePage malformedSnapshot) 1000) = 61000
   \<and> sessionCount (run_g (initApp (examplePage malformedSnapshot) 1000) [(Tick, 61000)]) = NaN
   \<and> \<not> muted (initApp (examplePage malformedSnapshot) 1000)
   \<and> (case onDOMContentLoaded (examplePage malformedSnapshot) 1000 of
         Inl e \<Rightarrow> False
       | Inr s \<Rightarrow> sessionCount s = NaN \<and> sessionBadge s = Some ''Cycles: NaN''
           \<and> (\<forall>cs. run s cs = Inr (run_g s cs) \<and> sessionCount (run_g s cs) = NaN))"
proof -
  define P where "P = examplePage malformedSnapshot"
  have x: "stored P ''shanti_paused_remaining'' = Some ''abc'' \<and> ''abc'' \<noteq> []
      \<and> parseInt ''abc'' = NaN"
    and y: "stored P ''shanti_session_count'' = Some ''xyz'' \<and> ''xyz'' \<noteq> []
      \<and> parseInt ''xyz'' = NaN"
    and m: "stored P ''shanti_muted'' \<noteq> Some ''true''"
    by (simp_all add: P_def examplePage_stored malformedSnapshot_def parse_abc)
  have c: "completePage P" unfolding P_def by (rule examplePage_complete)
  note T = restore_malformed [of P 1000]
  from T x have a: "pausedRemainingMs (initApp P 1000) = NaN"
    "endTimeMs (initApp P 1000) = 1000 + DURATION * 1000"
    unfolding Let_def by blast+
  from T y have b: "sessionCount (run_g (initApp P 1000) [(Tick, 61000)]) = NaN"
    by blast
  from T y c have d: "case onDOMContentLoaded P 1000 of
         Inl e \<Rightarrow> False
       | Inr s \<Rightarrow> sessionCount s = NaN \<and> sessionBadge s = Some ''Cycles: NaN''
           \<and> (\<forall>cs. run s cs = Inr (run_g s cs) \<and> sessionCount (run_g s cs) = NaN)"
    by blast
  from T m have e: "\<not> muted (initApp P 1000)" by blast
  from a(2) have a2: "endTimeMs (initApp P 1000) = 61000" by (simp add: DURATION_def)
  show ?thesis
    unfolding P_def [symmetric] using x y c a(1) a2 b d e by blast
qed

text \<open>
  C5. The claim that \<open>0 \<le> pausedRemainingMs \<le> DURATION * 1000\<close> holds in every state
  that can be reached, initialisation from a stored snapshot included, fails: whatever
  number \<^verbatim>\<open>shanti_paused_remaining\<close> parses to is taken as it is. With 90000 stored,
  script.js is paused with 90000 ms left, and \<^verbatim>\<open>initApp\<close> carries the same value.
\<close>

theorem reachable_invariant_counterexample:
  "(case onDOMContentLoaded (examplePage outOfRangeSnapshot) 1000 of
      Inl e \<Rightarrow> False
    | Inr s \<Rightarrow> \<not> running s \<and> pausedRemainingMs s = Num 90000
        \<and> \<not> pausedInRange (pausedRemainingMs s))
   \<and> pausedRemainingMs (initApp (examplePage outOfRangeSnapshot) 1000) = Num 90000
   \<and> \<not> pausedInRange (pausedRemainingMs (initApp (examplePage outOfRangeSnapshot) 1000))"
proof -
  have h: "stored (examplePage outOfRangeSnapshot) ''shanti_running'' = Some ''0''"
    "stored (examplePage outOfRangeSnapshot) ''shanti_paused_remaining'' = Some ''90000''"
    by (simp_all add: examplePage_stored outOfRangeSnapshot_def)
  have a: "pausedRemainingMs (initApp (examplePage outOfRangeSnapshot) 1000) = Num 90000"
    by (simp add: initApp_fields(3) h truthy_def parse_90000)
  have n: "\<not> pausedInRange (Num 90000)"
    by (simp add: pausedInRange_def DURATION_def)
  from js_init_common [OF examplePage_complete, of outOfRangeSnapshot 1000] obtain s where
    s: "onDOMContentLoaded (examplePage outOfRangeSnapshot) 1000 = Inr s"
      "running s = (stored (examplePage outOfRangeSnapshot) ''shanti_running'' \<noteq> Some ''0'')"
      "pausedRemainingMs s = pausedRemainingMs (initApp (examplePage outOfRangeSnapshot) 1000)"
    by blast
  show ?thesis
    unfolding s(1) using s(2,3) a n h by simp
qed

text \<open>
  C5, as the code has it. The phase is the boolean \<^verbatim>\<open>running\<close>, so it is Running or
  Paused. If the stored \<^verbatim>\<open>shanti_paused_remaining\<close> is absent, empty or a number
  between 0 and the cycle length, and the clock does not run backwards, then after
  initialisation and any sequence of operations \<^verbatim>\<open>pausedRemainingMs\<close> is a number
  between 0 and the cycle length, a running timer ends at most one cycle after the last
  instant, and the timer is running exactly when its one interval is scheduled. One
  time source counts in each phase: \<^verbatim>\<open>tick\<close> does the same whatever
  \<^verbatim>\<open>pausedRemainingMs\<close> holds, and starting a paused timer does the same whatever
  \<^verbatim>\<open>endTimeMs\<close> holds.
\<close>

theorem reachable_invariant:
  assumes "storedInRange p" and "monotone t0 cs"
  shows "(let s = run_g (initApp p t0) cs in
            pausedInRange (pausedRemainingMs s)
          \<and> (running s \<longrightarrow> endTimeMs s \<le> lastInstant t0 cs + DURATION * 1000)
          \<and> scheduleOk s)
       \<and> (completePage p \<longrightarrow>
            (case onDOMContentLoaded p t0 of
               Inl e \<Rightarrow> False
             | Inr s0 \<Rightarrow>
                 (case run s0 cs of
                    Inl e \<Rightarrow> False
                  | Inr s \<Rightarrow> pausedInRange (pausedRemainingMs s)
                      \<and> (running s \<longrightarrow> endTimeMs s \<le> lastInstant t0 cs + DURATION * 1000)
                      \<and> scheduleOk s)))
       \<and> (\<forall>s x now. tick_g (s\<lparr> pausedRemainingMs := x \<rparr>) now
              = (tick_g s now)\<lparr> pausedRemainingMs := x \<rparr>)
       \<and> (\<forall>s e now. \<not> running s \<longrightarrow> startTimer_g (s\<lparr> endTimeMs := e \<rparr>) now = startTimer_g s now)"
proof -
  have inv: "pausedInRange (pausedRemainingMs (run_g s0 cs))
          \<and> (running (run_g s0 cs) \<longrightarrow> endTimeMs (run_g s0 cs) \<le> lastInstant t0 cs + DURATION * 1000)
          \<and> scheduleOk (run_g s0 cs)" if "timeOk s0 t0" "scheduleOk s0" for s0
  proof -
    from that(1) assms(2) have "timeOk (run_g s0 cs) (lastInstant t0 cs)" by (rule timeOk_run)
    moreover from that(2) have "scheduleOk (run_g s0 cs)" by (rule scheduleOk_run)
    ultimately show ?thesis by (simp add: timeOk_def split: if_splits)
  qed
  have a: "pausedInRange (pausedRemainingMs (run_g (initApp p t0) cs))
          \<and> (running (run_g (initApp p t0) cs) \<longrightarrow>
               endTimeMs (run_g (initApp p t0) cs) \<le> lastInstant t0 cs + DURATION * 1000)
          \<and> scheduleOk (run_g (initApp p t0) cs)"
    using assms(1) by (intro inv timeOk_initApp scheduleOk_initApp)
  have b: "(case onDOMContentLoaded p t0 of
               Inl e \<Rightarrow> False
             | Inr s0 \<Rightarrow>
                 (case run s0 cs of
                    Inl e \<Rightarrow> False
                  | Inr s \<Rightarrow> pausedInRange (pausedRemainingMs s)
                      \<and> (running s \<longrightarrow> endTimeMs s \<le> lastInstant t0 cs + DURATION * 1000)
                      \<and> scheduleOk s))" if c: "completePage p"
  proof -
    from js_init_timeOk [OF c assms(1), of t0] obtain s0 where
      s0: "onDOMContentLoaded p t0 = Inr s0" "complete s0" "scheduleOk s0" "timeOk s0 t0"
      by blast
    have r: "run s0 cs = Inr (run_g s0 cs)" using s0(2) by (rule run_agree)
    show ?thesis
      using inv [OF s0(4,3)] by (simp add: s0(1) r)
  qed
  show ?thesis
    unfolding Let_def using a b tick_g_ignores_paused startTimer_g_ignores_end by blast
qed

theorem reachable_invariant_witness:
  "storedInRange (examplePage pausedSnapshot)
   \<and> monotone 1000 [(Toggle, 5000), (Tick, 5250), (Toggle, 9000)]
   \<and> completePage (examplePage pausedSnapshot)
   \<and> pausedInRange (pausedRemainingMs
        (run_g (initApp (examplePage pausedSnapshot) 1000) [(Toggle, 5000), (Tick, 5250), (Toggle, 9000)]))
   \<and> scheduleOk
        (run_g (initApp (examplePage pausedSnapshot) 1000) [(Toggle, 5000), (Tick, 5250), (Toggle, 9000)])
   \<and> (case onDOMContentLoaded (examplePage pausedSnapshot) 1000 of
         Inl e \<Rightarrow> False
       | Inr s0 \<Rightarrow>
           (case run s0 [(Toggle, 5000), (Tick, 5250), (Toggle, 9000)] of
              Inl e \<Rightarrow> False
            | Inr s \<Rightarrow> pausedInRange (pausedRemainingMs s) \<and> scheduleOk s))"
proof -
  define P where "P = examplePage pausedSnapshot"
  define cs where "cs = [(Toggle, 5000), (Tick, 5250), (Toggle, 9000::int)]"
  have h1: "storedInRange P"
    by (simp add: P_def storedInRange_def examplePage_stored pausedSnapshot_def parse_30000
        pausedInRange_def DURATION_def)
  have h2: "monotone 1000 cs" by (simp add: cs_def)
  have c: "completePage P" unfolding P_def by (rule examplePage_complete)
  note T = reachable_invariant [OF h1 h2]
  from T have a: "pausedInRange (pausedRemainingMs (run_g (initApp P 1000) cs))"
    "scheduleOk (run_g (initApp P 1000) cs)"
    unfolding Let_def by blast+
  from T c have "case onDOMContentLoaded P 1000 of
         Inl e \<Rightarrow> False
       | Inr s0 \<Rightarrow>
           (case run s0 cs of
              Inl e \<Rightarrow> False
            | Inr s \<Rightarrow> pausedInRange (pausedRemainingMs s)
                \<and> (running s \<longrightarrow> endTimeMs s \<le> lastInstant 1000 cs + DURATION * 1000)
                \<and> scheduleOk s)"
    by blast
  then have b: "case onDOMContentLoaded P 1000 of
         Inl e \<Rightarrow> False
       | Inr s0 \<Rightarrow>
           (case run s0 cs of
              Inl e \<Rightarrow> False
            | Inr s \<Rightarrow> pausedInRange (pausedRemainingMs s) \<and> scheduleOk s)"
    by (auto split: sum.splits)
  show ?thesis
    unfolding P_def [symmetric] cs_def [symmetric] using h1 h2 c a b by blast
qed




end
